theory Spec2Isabelle
  imports Main "HOL-Library.AList"
begin

section \<open>JavaScript strings\<close>

text \<open>
  A JavaScript string is modelled as a \<^typ>\<open>string\<close>: one \<^typ>\<open>char\<close> stands for
  one code unit, restricted to the Latin-1 range. \<open>length\<close> is \<open>String.prototype.length\<close>.
  Every statement below about a page or a query is therefore a statement about Latin-1 text;
  text with code units from \<open>U+0100\<close> on is outside the model.
\<close>

text \<open>The white space and line terminator code units that \<open>trim\<close> and the regular
  expression class \<open>\s\<close> recognise (within Latin-1): TAB, LF, VT, FF, CR, SP, NBSP.\<close>

definition isWhiteSpace :: "char \<Rightarrow> bool" where
  "isWhiteSpace c =
     (c = CHR 0x09 \<or> c = CHR 0x0A \<or> c = CHR 0x0B \<or> c = CHR 0x0C \<or> c = CHR 0x0D
      \<or> c = CHR 0x20 \<or> c = CHR 0xA0)"

definition trim :: "string \<Rightarrow> string" where
  "trim s = rev (dropWhile isWhiteSpace (rev (dropWhile isWhiteSpace s)))"

text \<open>\<open>s.startsWith(t)\<close>\<close>

fun startsWith :: "string \<Rightarrow> string \<Rightarrow> bool" where
  "startsWith s [] = True"
| "startsWith [] (c # t) = False"
| "startsWith (d # s) (c # t) = (d = c \<and> startsWith s t)"

text \<open>\<open>s.includes(t)\<close> (\<open>includes\<close> is an Isabelle keyword)\<close>

fun includesStr :: "string \<Rightarrow> string \<Rightarrow> bool" where
  "includesStr [] t = (t = [])"
| "includesStr (d # s) t = (startsWith (d # s) t \<or> includesStr s t)"

text \<open>\<open>toLowerCase\<close> on Latin-1: the letters \<open>A\<close>-\<open>Z\<close> and \<open>0xC0\<close>-\<open>0xDE\<close> (without the
  multiplication sign \<open>0xD7\<close>) move up by 32. On this range the result has the length of the
  argument and position \<open>k\<close> of the result is the lower case of position \<open>k\<close> of the
  argument. This is not so beyond Latin-1, where \<open>U+0130\<close> lower-cases to two code units.\<close>

definition toLowerChar :: "char \<Rightarrow> char" where
  "toLowerChar c =
     (let n = (of_char c :: nat)
      in if (65 \<le> n \<and> n \<le> 90) \<or> (192 \<le> n \<and> n \<le> 222 \<and> n \<noteq> 215)
         then char_of (n + 32) else c)"

definition toLowerCase :: "string \<Rightarrow> string" where
  "toLowerCase s = map toLowerChar s"

text \<open>\<open>s.indexOf(t)\<close>: \<open>None\<close> is \<open>-1\<close>.\<close>

fun indexOf :: "string \<Rightarrow> string \<Rightarrow> nat option" where
  "indexOf [] t = (if t = [] then Some 0 else None)"
| "indexOf (c # s) t = (if startsWith (c # s) t then Some 0 else map_option Suc (indexOf s t))"

text \<open>\<open>s.substring(start, end)\<close> for \<open>start \<le> end\<close>\<close>

definition substring :: "string \<Rightarrow> nat \<Rightarrow> nat \<Rightarrow> string" where
  "substring s start end = take (end - start) (drop start s)"

text \<open>\<open>s.split(" ")\<close>\<close>

fun splitSpace :: "string \<Rightarrow> string list" where
  "splitSpace [] = [[]]"
| "splitSpace (c # s) =
     (if c = CHR '' '' then [] # splitSpace s
      else (case splitSpace s of [] \<Rightarrow> [[c]] | w # ws \<Rightarrow> (c # w) # ws))"

section \<open>The regular expressions of the parser\<close>

text \<open>
  A case-insensitive literal prefix: the pattern \<open>p\<close> is given in lower case; all the patterns
  of the parser are ASCII, and an ASCII letter matches only its two cases.
\<close>

definition startsWithCI :: "string \<Rightarrow> string \<Rightarrow> bool" where
  "startsWithCI s p = startsWith (toLowerCase (take (length p) s)) p"

text \<open>
  \<open>s.replace(/re/g, "")\<close>, with \<open>m\<close> giving the length of the match of \<open>re\<close> at the start of
  its argument: scan from the left, drop a match and go on behind it. The counter holds the
  characters of the current match still to be dropped.
\<close>

fun removeMatches :: "(string \<Rightarrow> nat option) \<Rightarrow> nat \<Rightarrow> string \<Rightarrow> string" where
  "removeMatches m k [] = []"
| "removeMatches m (Suc k) (c # s) = removeMatches m k s"
| "removeMatches m 0 (c # s) =
     (case m (c # s) of
        Some (Suc n) \<Rightarrow> removeMatches m n s
      | _ \<Rightarrow> c # removeMatches m 0 s)"

text \<open>The dot of a regular expression matches everything but a line terminator.\<close>

definition isLineTerminator :: "char \<Rightarrow> bool" where
  "isLineTerminator c = (c = CHR 0x0A \<or> c = CHR 0x0D)"

text \<open>\<open>.*?suf\<close>: the shortest run of non-terminators followed by \<open>suf\<close>; the result is the
  length of the run and of \<open>suf\<close> together.\<close>

fun lazyUntil :: "string \<Rightarrow> string \<Rightarrow> nat option" where
  "lazyUntil suf [] = (if suf = [] then Some 0 else None)"
| "lazyUntil suf (c # s) =
     (if startsWithCI (c # s) suf then Some (length suf)
      else if isLineTerminator c then None
      else map_option Suc (lazyUntil suf s))"

text \<open>\<open>/pre.*?suf/gi\<close> at the start of \<open>s\<close>\<close>

definition matchLazy :: "string \<Rightarrow> string \<Rightarrow> string \<Rightarrow> nat option" where
  "matchLazy pre suf s =
     (if startsWithCI s pre
      then map_option (\<lambda>n. length pre + n) (lazyUntil suf (drop (length pre) s))
      else None)"

definition isDigit :: "char \<Rightarrow> bool" where
  "isDigit c = (let n = (of_char c :: nat) in 48 \<le> n \<and> n \<le> 57)"

text \<open>\<open>/Edge_Logo_\d+x\d+/gi\<close> at the start of \<open>s\<close>\<close>

definition matchEdgeLogo :: "string \<Rightarrow> nat option" where
  "matchEdgeLogo s =
     (if startsWithCI s ''edge_logo_'' then
        (let r = drop 10 s;
             d1 = takeWhile isDigit r;
             r1 = dropWhile isDigit r
         in if d1 \<noteq> [] \<and> startsWithCI r1 ''x'' then
              (let d2 = takeWhile isDigit (drop 1 r1)
               in if d2 \<noteq> [] then Some (10 + length d1 + 1 + length d2) else None)
            else None)
      else None)"

text \<open>\<open>/w1|w2|.../gi\<close> at the start of \<open>s\<close>: the first alternative that matches.\<close>

definition matchWords :: "string list \<Rightarrow> string \<Rightarrow> nat option" where
  "matchWords ws s = map_option length (find (startsWithCI s) ws)"

text \<open>\<open>s.replace(/\s+/g, " ")\<close>: one space for every run of white space.\<close>

fun collapseWhiteSpace :: "string \<Rightarrow> string" where
  "collapseWhiteSpace [] = []"
| "collapseWhiteSpace [c] = (if isWhiteSpace c then '' '' else [c])"
| "collapseWhiteSpace (c # d # s) =
     (if isWhiteSpace c then
        (if isWhiteSpace d then collapseWhiteSpace (d # s) else CHR '' '' # collapseWhiteSpace (d # s))
      else c # collapseWhiteSpace (d # s))"

section \<open>Errors and effects\<close>

text \<open>
  The three tagged errors of the server, and the two failures of the libraries underneath
  (the HTTP client's error and \<open>Effect.timeout\<close>'s exception) that the fetch pipeline maps.
\<close>

datatype error =
    FetchError string
  | ParseError string
  | NotFoundError string
  | HttpClientError string
  | TimeoutException

text \<open>What the network does with one request: the body text arrives in time, the request
  fails (with a description), or nothing has arrived when the timeout fires.\<close>

datatype net_outcome = Responds string | Fails string | Hangs

text \<open>An effect observed at its deadline: \<open>None\<close> while it is still running, otherwise its
  exit. \<open>Effect.mapError\<close>, \<open>Effect.timeout\<close> and \<open>Effect.catchAll\<close> on it.\<close>

type_synonym 'a exit = "error + 'a"

definition mapError :: "(error \<Rightarrow> error) \<Rightarrow> 'a exit \<Rightarrow> 'a exit" where
  "mapError f r = (case r of Inl e \<Rightarrow> Inl (f e) | Inr a \<Rightarrow> Inr a)"

definition timeout :: "'a exit option \<Rightarrow> 'a exit" where
  "timeout r = (case r of None \<Rightarrow> Inl TimeoutException | Some x \<Rightarrow> x)"

definition catchAll :: "(error \<Rightarrow> 'a exit) \<Rightarrow> 'a exit \<Rightarrow> 'a exit" where
  "catchAll h r = (case r of Inl e \<Rightarrow> h e | Inr a \<Rightarrow> Inr a)"

section \<open>The page cache and fetchPage\<close>

record cached_page =
  content :: string
  timestamp :: int

text \<open>\<open>pageCache\<close> is a JavaScript \<open>Map\<close>: an association list with distinct keys in
  insertion order; \<open>set\<close> is \<open>AList.update\<close>, \<open>delete\<close> is \<open>AList.delete\<close>, \<open>get\<close> is
  \<open>map_of\<close>, \<open>size\<close> is \<open>length\<close>.\<close>

type_synonym page_cache = "(string \<times> cached_page) list"

definition CACHE_TTL :: int where
  "CACHE_TTL = 10 * 60 * 1000"

definition isGoodCache :: "string \<Rightarrow> bool" where
  "isGoodCache c =
     (length (trim c) > 100 \<and> \<not> includesStr c ''404'' \<and> \<not> includesStr c ''Not Found''
      \<and> \<not> includesStr c ''Error'')"

definition shouldCache :: "string \<Rightarrow> bool" where
  "shouldCache c =
     (length (trim c) > 100 \<and> \<not> includesStr c ''404'' \<and> \<not> includesStr c ''Not Found''
      \<and> \<not> includesStr c ''Error'')"

text \<open>The first part of \<open>fetchPage\<close>: the cache read at time \<open>now\<close>. It returns the cached
  content on a hit and the cache, from which a fresh entry of bad quality has been deleted.\<close>

definition cacheRead :: "int \<Rightarrow> string \<Rightarrow> page_cache \<Rightarrow> string option \<times> page_cache" where
  "cacheRead now url cache =
     (case map_of cache url of
        None \<Rightarrow> (None, cache)
      | Some cached \<Rightarrow>
          if now - timestamp cached < CACHE_TTL then
            (if isGoodCache (content cached) then (Some (content cached), cache)
             else (None, AList.delete url cache))
          else (None, cache))"

text \<open>\<open>fetchAndCache\<close> at time \<open>now\<close>: the content is returned as it is; the cache is
  updated, swept when it holds more than 100 entries, or the URL's entry deleted.\<close>

definition fetchAndCache :: "int \<Rightarrow> string \<Rightarrow> string \<Rightarrow> page_cache \<Rightarrow> string \<times> page_cache" where
  "fetchAndCache now url c cache =
     (if shouldCache c then
        (let cache1 = AList.update url \<lparr>content = c, timestamp = now\<rparr> cache in
         (c, if length cache1 > 100
             then filter (\<lambda>(key, v). \<not> timestamp v < now - CACHE_TTL) cache1
             else cache1))
      else (c, AList.delete url cache))"

text \<open>The rendered path: \<open>Effect.tryPromise\<close> around the browser navigation, then
  \<open>Effect.timeout\<close>, then \<open>Effect.mapError\<close>.\<close>

definition fetchRendered :: "int \<Rightarrow> string \<Rightarrow> net_outcome \<Rightarrow> page_cache \<Rightarrow> string exit \<times> page_cache" where
  "fetchRendered now url outcome cache =
     (let (r1, cache1) =
            (case outcome of
               Responds c \<Rightarrow>
                 (let (c', cache') = fetchAndCache now url c cache in (Some (Inr c'), cache'))
             | Fails msg \<Rightarrow>
                 (Some (Inl (FetchError (''Puppeteer fetch failed for '' @ url @ '': '' @ msg))),
                  cache)
             | Hangs \<Rightarrow> (None, cache));
          r2 = timeout r1;
          r3 = mapError (\<lambda>_. FetchError (''Timeout fetching with puppeteer: '' @ url)) r2
      in (r3, cache1))"

text \<open>The static path: \<open>httpClient.execute\<close>, \<open>response.text\<close>, \<open>Effect.map(fetchAndCache)\<close>,
  \<open>Effect.mapError\<close>, \<open>Effect.timeout\<close>, \<open>Effect.mapError\<close>, in the order of the pipe.\<close>

definition fetchStatic :: "int \<Rightarrow> string \<Rightarrow> net_outcome \<Rightarrow> page_cache \<Rightarrow> string exit \<times> page_cache" where
  "fetchStatic now url outcome cache =
     (let r0 = (case outcome of
                  Responds c \<Rightarrow> Some (Inr c)
                | Fails msg \<Rightarrow> Some (Inl (HttpClientError msg))
                | Hangs \<Rightarrow> None);
          (r1, cache1) =
            (case r0 of
               Some (Inr c) \<Rightarrow>
                 (let (c', cache') = fetchAndCache now url c cache in (Some (Inr c'), cache'))
             | _ \<Rightarrow> (r0, cache));
          r2 = map_option (mapError (\<lambda>_. FetchError (''Failed to fetch: '' @ url))) r1;
          r3 = timeout r2;
          r4 = mapError (\<lambda>_. FetchError (''Timeout fetching: '' @ url)) r3
      in (r4, cache1))"

text \<open>\<open>fetchPage\<close>: \<open>now\<close> is the clock at the cache read, \<open>now'\<close> the clock when the
  response is handed to \<open>fetchAndCache\<close>.\<close>

definition fetchPage ::
  "int \<Rightarrow> int \<Rightarrow> string \<Rightarrow> net_outcome \<Rightarrow> page_cache \<Rightarrow> string exit \<times> page_cache" where
  "fetchPage now now' url outcome cache =
     (case cacheRead now url cache of
        (Some c, cache0) \<Rightarrow> (Inr c, cache0)
      | (None, cache0) \<Rightarrow>
          if includesStr url ''developer.holochain.org''
          then fetchRendered now' url outcome cache0
          else fetchStatic now' url outcome cache0)"

text \<open>Every entry of the cache passes the quality gate.\<close>

definition cacheAllGood :: "page_cache \<Rightarrow> bool" where
  "cacheAllGood cache = list_all (\<lambda>(key, v). isGoodCache (content v)) cache"

text \<open>A page of more than 100 characters without a blocked marker, for concrete runs.\<close>

definition goodPage :: string where
  "goodPage = ''Holochain is an open source framework for building fully distributed, peer-to-peer applications. Every agent keeps a source chain.''"

section \<open>Documents and selectors\<close>

text \<open>
  What \<open>cheerio.load\<close> returns is a tree of elements and text nodes; the root is the
  \<open>html\<close> element. The parser itself is a library: the functions below take it as the
  parameter \<open>load\<close>. \<open>textContent\<close> is what \<open>.text()\<close> returns for one element, \<open>selectIn\<close>
  the elements matched by a selector list in document order, \<open>attr\<close> is \<open>.attr(name)\<close>.
\<close>

datatype node = Text string | Element string "(string \<times> string) list" "node list"

type_synonym element_head = "string \<times> (string \<times> string) list"

fun textContent :: "node \<Rightarrow> string" where
  "textContent (Text s) = s"
| "textContent (Element t as cs) = concat (map textContent cs)"

fun splitWhiteFrom :: "string \<Rightarrow> string \<Rightarrow> string list" where
  "splitWhiteFrom w [] = (if w = [] then [] else [rev w])"
| "splitWhiteFrom w (c # s) =
     (if isWhiteSpace c then (if w = [] then splitWhiteFrom [] s else rev w # splitWhiteFrom [] s)
      else splitWhiteFrom (c # w) s)"

definition splitWhite :: "string \<Rightarrow> string list" where
  "splitWhite s = splitWhiteFrom [] s"

definition endsWith :: "string \<Rightarrow> string \<Rightarrow> bool" where
  "endsWith s t = startsWith (rev s) (rev t)"

datatype simple_selector =
    Tag string | Class string | AttrEquals string string | AttrContains string string
  | AttrEndsWith string string

fun matchesSimple :: "simple_selector \<Rightarrow> element_head \<Rightarrow> bool" where
  "matchesSimple (Tag t) (tag, as) = (tag = t)"
| "matchesSimple (Class c) (tag, as) =
     (case map_of as ''class'' of None \<Rightarrow> False | Some v \<Rightarrow> c \<in> set (splitWhite v))"
| "matchesSimple (AttrEquals a x) (tag, as) = (map_of as a = Some x)"
| "matchesSimple (AttrContains a x) (tag, as) =
     (case map_of as a of None \<Rightarrow> False | Some v \<Rightarrow> includesStr v x)"
| "matchesSimple (AttrEndsWith a x) (tag, as) =
     (case map_of as a of None \<Rightarrow> False | Some v \<Rightarrow> endsWith v x)"

datatype selector =
    Compound "simple_selector list"
  | Descendant selector "simple_selector list"
  | Child selector "simple_selector list"

fun ancestorChains :: "'a list \<Rightarrow> 'a list list" where
  "ancestorChains [] = []"
| "ancestorChains (p # ps) = (p # ps) # ancestorChains ps"

fun matchesSelector :: "selector \<Rightarrow> element_head \<Rightarrow> element_head list \<Rightarrow> bool" where
  "matchesSelector (Compound c) e anc = list_all (\<lambda>s. matchesSimple s e) c"
| "matchesSelector (Descendant a c) e anc =
     (list_all (\<lambda>s. matchesSimple s e) c
      \<and> list_ex (\<lambda>t. case t of [] \<Rightarrow> False | p # ps \<Rightarrow> matchesSelector a p ps) (ancestorChains anc))"
| "matchesSelector (Child a c) e anc =
     (list_all (\<lambda>s. matchesSimple s e) c
      \<and> (case anc of [] \<Rightarrow> False | p # ps \<Rightarrow> matchesSelector a p ps))"

fun selectIn :: "selector list \<Rightarrow> element_head list \<Rightarrow> node \<Rightarrow> node list" where
  "selectIn sels anc (Text s) = []"
| "selectIn sels anc (Element t as cs) =
     (if list_ex (\<lambda>sel. matchesSelector sel (t, as) anc) sels then [Element t as cs] else [])
     @ concat (map (selectIn sels ((t, as) # anc)) cs)"

fun attr :: "node \<Rightarrow> string \<Rightarrow> string option" where
  "attr (Text s) a = None"
| "attr (Element t as cs) a = map_of as a"

section \<open>The function index\<close>

text \<open>\<open>HdkFunction\<close>: \<open>{name, url}\<close>.\<close>

record hdk_function =
  fn_name :: string
  fn_url :: string

text \<open>
  \<open>href.match(/fn\.([^.\/]+)\.html/)\<close> and, with \<open>excluded\<close> the dot alone,
  \<open>href.match(/fn\.([^.]+)\.html/)\<close>: the capture group of the leftmost match. The
  greedy class takes the longest run of admitted characters; a shorter run would be followed by
  an admitted character, never by the dot the pattern wants next.
\<close>

definition fnMatchHere :: "(char \<Rightarrow> bool) \<Rightarrow> string \<Rightarrow> string option" where
  "fnMatchHere excluded s =
     (if startsWith s ''fn.'' then
        (let rest = drop 3 s;
             nm = takeWhile (\<lambda>c. \<not> excluded c) rest;
             after = dropWhile (\<lambda>c. \<not> excluded c) rest
         in if nm \<noteq> [] \<and> startsWith after ''.html'' then Some nm else None)
      else None)"

fun fnMatch :: "(char \<Rightarrow> bool) \<Rightarrow> string \<Rightarrow> string option" where
  "fnMatch excluded [] = None"
| "fnMatch excluded (c # s) =
     (case fnMatchHere excluded (c # s) of Some n \<Rightarrow> Some n | None \<Rightarrow> fnMatch excluded s)"

text \<open>\<open>a[href*='/fn.']\<close>, \<open>a[href*='fn.']\<close>, \<open>.item-name a\<close>, \<open>.module-item a\<close>\<close>

definition functionSelectors :: "selector list" where
  "functionSelectors =
     [Compound [Tag ''a'', AttrContains ''href'' ''/fn.''],
      Compound [Tag ''a'', AttrContains ''href'' ''fn.''],
      Descendant (Compound [Class ''item-name'']) [Tag ''a''],
      Descendant (Compound [Class ''module-item'']) [Tag ''a'']]"

definition modules :: "string list" where
  "modules = [''entry'', ''link'', ''agent'', ''chain'', ''p2p'', ''capability'', ''hash'', ''info'']"

definition commonFunctions :: "(string \<times> string list) list" where
  "commonFunctions =
     [(''entry'', [''create_entry'', ''get'', ''update_entry'', ''delete_entry'']),
      (''link'', [''create_link'', ''get_links'', ''delete_link'', ''get_link_details'']),
      (''agent'', [''agent_info'']),
      (''chain'', [''get_chain_head'', ''query'']),
      (''p2p'', [''call'', ''call_remote'', ''emit_signal'']),
      (''capability'', [''create_cap_grant'', ''create_cap_claim'']),
      (''hash'', [''hash'']),
      (''info'', [''dna_info'', ''zome_info'', ''call_info''])]"

text \<open>The two mutable locals of \<open>parseHdkIndex\<close>: the array \<open>functions\<close> and the set
  \<open>seenFunctions\<close> (in insertion order).\<close>

type_synonym index_state = "hdk_function list \<times> string list"

text \<open>\<open>if (!seenFunctions.has(n)) { seenFunctions.add(n); functions.push({name: n, url: u}) }\<close>\<close>

definition addFunction :: "string \<Rightarrow> string \<Rightarrow> index_state \<Rightarrow> index_state" where
  "addFunction functionName functionUrl st =
     (case st of (functions, seenFunctions) \<Rightarrow>
        if functionName \<in> set seenFunctions then st
        else (functions @ [\<lparr>fn_name = functionName, fn_url = functionUrl\<rparr>],
              seenFunctions @ [functionName]))"

text \<open>The body of the inner \<open>each\<close> of strategy 1, for one matched element.\<close>

definition visitFunctionLink :: "string \<Rightarrow> node \<Rightarrow> index_state \<Rightarrow> index_state" where
  "visitFunctionLink baseUrl el st =
     (case attr el ''href'' of
        None \<Rightarrow> st
      | Some href \<Rightarrow>
          if href \<noteq> [] \<and> includesStr href ''fn.'' then
            (case fnMatch (\<lambda>c. c = CHR ''.'' \<or> c = CHR ''/'') href of
               None \<Rightarrow> st
             | Some functionName \<Rightarrow>
                 addFunction functionName
                   (if startsWith href ''http'' then href
                    else if startsWith href ''/'' then ''https://docs.rs'' @ href
                    else baseUrl @ ''/'' @ href) st)
          else st)"

text \<open>
  \<open>parseHdkIndex\<close>. \<open>load\<close> is \<open>cheerio.load\<close>. Strategies 2 and 3 of the source (module
  links, function-like names in the body text) only feed \<open>console.error\<close> and are left out.
  The table of common functions is added last, under the same \<open>seenFunctions\<close> test.
\<close>

definition parseHdkIndex :: "(string \<Rightarrow> node) \<Rightarrow> string \<Rightarrow> string \<Rightarrow> hdk_function list exit" where
  "parseHdkIndex load html baseUrl =
     (let doc = load html;
          st1 = fold (\<lambda>selector st. fold (visitFunctionLink baseUrl) (selectIn [selector] [] doc) st)
                  functionSelectors ([], []);
          st2 = fold (\<lambda>module st.
                  case map_of commonFunctions module of
                    None \<Rightarrow> st
                  | Some fs \<Rightarrow>
                      fold (\<lambda>funcName. addFunction funcName
                              (baseUrl @ ''/'' @ module @ ''/fn.'' @ funcName @ ''.html'')) fs st)
                  modules st1
      in Inr (fst st2))"

section \<open>The documentation service\<close>

text \<open>
  The mutable state of the process: \<open>pageCache\<close> and \<open>hdkFunctionCache\<close> (a \<open>Map\<close> with the
  single key \<open>hdk_functions\<close>, holding the functions and the time they were stored).
\<close>

record server_state =
  pageCache :: page_cache
  hdkFunctionCache :: "(hdk_function list \<times> int) option"

text \<open>An \<open>Effect\<close> run to its exit on the state. \<open>Effect.all\<close> without options runs its
  effects one after the other and fails with the first failure.\<close>

type_synonym 'a effect = "server_state \<Rightarrow> 'a exit \<times> server_state"

definition succeed :: "'a \<Rightarrow> 'a effect" where
  "succeed a st = (Inr a, st)"

definition failWith :: "error \<Rightarrow> 'a effect" where
  "failWith e st = (Inl e, st)"

definition flatMap :: "('a \<Rightarrow> 'b effect) \<Rightarrow> 'a effect \<Rightarrow> 'b effect" where
  "flatMap f m st = (case m st of (Inl e, st') \<Rightarrow> (Inl e, st') | (Inr a, st') \<Rightarrow> f a st')"

definition effectMap :: "('a \<Rightarrow> 'b) \<Rightarrow> 'a effect \<Rightarrow> 'b effect" where
  "effectMap f m st = (case m st of (Inl e, st') \<Rightarrow> (Inl e, st') | (Inr a, st') \<Rightarrow> (Inr (f a), st'))"

definition effectMapError :: "(error \<Rightarrow> error) \<Rightarrow> 'a effect \<Rightarrow> 'a effect" where
  "effectMapError f m st = (case m st of (Inl e, st') \<Rightarrow> (Inl (f e), st') | (Inr a, st') \<Rightarrow> (Inr a, st'))"

definition effectCatchAll :: "(error \<Rightarrow> 'a effect) \<Rightarrow> 'a effect \<Rightarrow> 'a effect" where
  "effectCatchAll h m st = (case m st of (Inl e, st') \<Rightarrow> h e st' | (Inr a, st') \<Rightarrow> (Inr a, st'))"

fun effectAll :: "'a effect list \<Rightarrow> 'a list effect" where
  "effectAll [] st = (Inr [], st)"
| "effectAll (m # ms) st =
     (case m st of
        (Inl e, st') \<Rightarrow> (Inl e, st')
      | (Inr a, st') \<Rightarrow>
          (case effectAll ms st' of
             (Inl e, st'') \<Rightarrow> (Inl e, st'')
           | (Inr as, st'') \<Rightarrow> (Inr (a # as), st'')))"

text \<open>\<open>Effect.try\<close> around a computation that has already produced its exit.\<close>

definition fromExit :: "'a exit \<Rightarrow> 'a effect" where
  "fromExit r st = (r, st)"

text \<open>\<open>config.baseUrls\<close>\<close>

definition baseUrl_developer :: string where
  "baseUrl_developer = ''https://developer.holochain.org''"

definition baseUrl_hdk :: string where
  "baseUrl_hdk = ''https://docs.rs/hdk/latest/hdk''"

definition baseUrl_hdi :: string where
  "baseUrl_hdi = ''https://docs.rs/hdi/latest/hdi''"

text \<open>
  \<open>httpService.fetchPage\<close> on the state. The network is \<open>net\<close>, the outcome of a request for
  each URL; the clock reads \<open>now\<close> throughout one operation.
\<close>

definition httpFetchPage :: "int \<Rightarrow> (string \<Rightarrow> net_outcome) \<Rightarrow> string \<Rightarrow> string effect" where
  "httpFetchPage now net url st =
     (case fetchPage now now url (net url) (pageCache st) of
        (r, cache') \<Rightarrow> (r, st\<lparr>pageCache := cache'\<rparr>))"

definition FUNCTION_CACHE_TTL :: int where
  "FUNCTION_CACHE_TTL = 60 * 60 * 1000"

definition knownModules :: "string list" where
  "knownModules =
     [''entry'', ''link'', ''agent'', ''chain'', ''p2p'', ''capability'', ''ed25519'', ''hash'',
      ''info'', ''time'', ''random'', ''x_salsa20_poly1305'']"

text \<open>The \<open>Effect.try\<close> of the fallback: the function links of one module page.\<close>

definition visitModuleLink :: "string \<Rightarrow> node \<Rightarrow> hdk_function list \<Rightarrow> hdk_function list" where
  "visitModuleLink module el functions =
     (case attr el ''href'' of
        None \<Rightarrow> functions
      | Some href \<Rightarrow>
          if href \<noteq> [] \<and> trim (textContent el) \<noteq> [] \<and> includesStr href ''fn.'' then
            (case fnMatch (\<lambda>c. c = CHR ''.'') href of
               None \<Rightarrow> functions
             | Some functionName \<Rightarrow>
                 functions @
                 [\<lparr>fn_name = functionName,
                   fn_url = (if startsWith href ''http'' then href
                             else if startsWith href ''/'' then ''https://docs.rs'' @ href
                             else baseUrl_hdk @ ''/'' @ module @ ''/'' @ href)\<rparr>])
          else functions)"

definition parseModulePage :: "(string \<Rightarrow> node) \<Rightarrow> string \<Rightarrow> string \<Rightarrow> hdk_function list exit" where
  "parseModulePage load html module =
     Inr (fold (visitModuleLink module)
            (selectIn [Compound [Tag ''a'', AttrContains ''href'' ''fn.'']] [] (load html)) [])"

text \<open>\<open>functions.forEach(f => uniqueFunctionMap.set(f.name, f)); [...uniqueFunctionMap.values()]\<close>\<close>

definition uniqueByName :: "hdk_function list \<Rightarrow> hdk_function list" where
  "uniqueByName functions = map snd (fold (\<lambda>f m. AList.update (fn_name f) f m) functions [])"

definition discoverHDKFunctionsFallback ::
  "(string \<Rightarrow> node) \<Rightarrow> int \<Rightarrow> (string \<Rightarrow> net_outcome) \<Rightarrow> hdk_function list effect" where
  "discoverHDKFunctionsFallback load now net =
     flatMap (\<lambda>functions st.
         (let uniqueFunctions = uniqueByName functions
          in (Inr uniqueFunctions, st\<lparr>hdkFunctionCache := Some (uniqueFunctions, now)\<rparr>)))
       (effectMap concat
         (effectAll
           (map (\<lambda>module.
                   effectCatchAll (\<lambda>_. succeed [])
                     (flatMap (\<lambda>html. fromExit (parseModulePage load html module))
                        (httpFetchPage now net (baseUrl_hdk @ ''/'' @ module @ ''/index.html''))))
              knownModules)))"

definition discoverHDKFunctions ::
  "(string \<Rightarrow> node) \<Rightarrow> int \<Rightarrow> (string \<Rightarrow> net_outcome) \<Rightarrow> hdk_function list effect" where
  "discoverHDKFunctions load now net st =
     (let discover =
            effectCatchAll (\<lambda>error. discoverHDKFunctionsFallback load now net)
              (flatMap (\<lambda>functions st'.
                   (Inr functions, st'\<lparr>hdkFunctionCache := Some (functions, now)\<rparr>))
                 (flatMap (\<lambda>html. fromExit (parseHdkIndex load html baseUrl_hdk))
                    (httpFetchPage now net (baseUrl_hdk @ ''/index.html''))))
      in case hdkFunctionCache st of
           None \<Rightarrow> discover st
         | Some (functions, cachedAt) \<Rightarrow>
             if now - cachedAt < FUNCTION_CACHE_TTL then succeed functions st else discover st)"

text \<open>The state of a process that has just started.\<close>

definition initialState :: server_state where
  "initialState = \<lparr>pageCache = [], hdkFunctionCache = None\<rparr>"

text \<open>
  The reading of ``first occurrence per name wins'': of a list of \<open>(name, url)\<close> candidates,
  keep each name's first pair, in the order of those first occurrences.
\<close>

function spec_firstByName :: "(string \<times> string) list \<Rightarrow> (string \<times> string) list" where
  "spec_firstByName [] = []"
| "spec_firstByName ((n, u) # cs) = (n, u) # spec_firstByName (filter (\<lambda>c. fst c \<noteq> n) cs)"
  by pat_completeness auto
termination
  by (relation "measure length") (auto simp: less_Suc_eq_le)

text \<open>What one anchor offers to the index, if anything.\<close>

definition spec_linkCandidate :: "string \<Rightarrow> node \<Rightarrow> (string \<times> string) option" where
  "spec_linkCandidate baseUrl el =
     (case attr el ''href'' of
        None \<Rightarrow> None
      | Some href \<Rightarrow>
          if includesStr href ''fn.'' then
            (case fnMatch (\<lambda>c. c = CHR ''.'' \<or> c = CHR ''/'') href of
               None \<Rightarrow> None
             | Some n \<Rightarrow>
                 Some (n, if startsWith href ''http'' then href
                          else if startsWith href ''/'' then ''https://docs.rs'' @ href
                          else baseUrl @ ''/'' @ href))
          else None)"

text \<open>The curated table as candidates: \<open>baseUrl/module/fn.<name>.html\<close>.\<close>

definition spec_curatedCandidates :: "string \<Rightarrow> (string \<times> string) list" where
  "spec_curatedCandidates baseUrl =
     concat (map (\<lambda>(module, fs).
               map (\<lambda>f. (f, baseUrl @ ''/'' @ module @ ''/fn.'' @ f @ ''.html'')) fs)
             commonFunctions)"

text \<open>All candidates of an index page, in the order of discovery: the anchors of each
  selector strategy in turn, then the curated table.\<close>

definition spec_indexCandidates :: "node \<Rightarrow> string \<Rightarrow> (string \<times> string) list" where
  "spec_indexCandidates doc baseUrl =
     concat (map (\<lambda>selector. List.map_filter (spec_linkCandidate baseUrl) (selectIn [selector] [] doc))
               functionSelectors)
     @ spec_curatedCandidates baseUrl"

definition entryOf :: "hdk_function \<Rightarrow> string \<times> string" where
  "entryOf f = (fn_name f, fn_url f)"

text \<open>The index page of the scenario: two anchors, to \<open>entry/fn.create_entry.html\<close> and to
  \<open>link/fn.get_links.html\<close>.\<close>

definition scenarioIndexPage :: node where
  "scenarioIndexPage =
     Element ''html'' []
       [Element ''head'' [] [],
        Element ''body'' []
          [Element ''a'' [(''href'', ''entry/fn.create_entry.html'')] [Text ''create_entry''],
           Element ''a'' [(''href'', ''link/fn.get_links.html'')] [Text ''get_links'']]]"

text \<open>\<open>addFunction\<close> on a candidate pair, and the entry a pair becomes.\<close>

definition addCandidate :: "string \<times> string \<Rightarrow> index_state \<Rightarrow> index_state" where
  "addCandidate c st = addFunction (fst c) (snd c) st"

definition mkFunction :: "string \<times> string \<Rightarrow> hdk_function" where
  "mkFunction c = \<lparr>fn_name = fst c, fn_url = snd c\<rparr>"

text \<open>The index the scenario page yields.\<close>

definition scenarioIndex :: "hdk_function list" where
  "scenarioIndex =
     [\<lparr>fn_name = ''create_entry'', fn_url = ''https://docs.rs/hdk/latest/hdk/entry/fn.create_entry.html''\<rparr>,
      \<lparr>fn_name = ''get_links'', fn_url = ''https://docs.rs/hdk/latest/hdk/link/fn.get_links.html''\<rparr>,
      \<lparr>fn_name = ''get'', fn_url = ''https://docs.rs/hdk/latest/hdk/entry/fn.get.html''\<rparr>,
      \<lparr>fn_name = ''update_entry'', fn_url = ''https://docs.rs/hdk/latest/hdk/entry/fn.update_entry.html''\<rparr>,
      \<lparr>fn_name = ''delete_entry'', fn_url = ''https://docs.rs/hdk/latest/hdk/entry/fn.delete_entry.html''\<rparr>,
      \<lparr>fn_name = ''create_link'', fn_url = ''https://docs.rs/hdk/latest/hdk/link/fn.create_link.html''\<rparr>,
      \<lparr>fn_name = ''delete_link'', fn_url = ''https://docs.rs/hdk/latest/hdk/link/fn.delete_link.html''\<rparr>,
      \<lparr>fn_name = ''get_link_details'', fn_url = ''https://docs.rs/hdk/latest/hdk/link/fn.get_link_details.html''\<rparr>,
      \<lparr>fn_name = ''agent_info'', fn_url = ''https://docs.rs/hdk/latest/hdk/agent/fn.agent_info.html''\<rparr>,
      \<lparr>fn_name = ''get_chain_head'', fn_url = ''https://docs.rs/hdk/latest/hdk/chain/fn.get_chain_head.html''\<rparr>,
      \<lparr>fn_name = ''query'', fn_url = ''https://docs.rs/hdk/latest/hdk/chain/fn.query.html''\<rparr>,
      \<lparr>fn_name = ''call'', fn_url = ''https://docs.rs/hdk/latest/hdk/p2p/fn.call.html''\<rparr>,
      \<lparr>fn_name = ''call_remote'', fn_url = ''https://docs.rs/hdk/latest/hdk/p2p/fn.call_remote.html''\<rparr>,
      \<lparr>fn_name = ''emit_signal'', fn_url = ''https://docs.rs/hdk/latest/hdk/p2p/fn.emit_signal.html''\<rparr>,
      \<lparr>fn_name = ''create_cap_grant'', fn_url = ''https://docs.rs/hdk/latest/hdk/capability/fn.create_cap_grant.html''\<rparr>,
      \<lparr>fn_name = ''create_cap_claim'', fn_url = ''https://docs.rs/hdk/latest/hdk/capability/fn.create_cap_claim.html''\<rparr>,
      \<lparr>fn_name = ''hash'', fn_url = ''https://docs.rs/hdk/latest/hdk/hash/fn.hash.html''\<rparr>,
      \<lparr>fn_name = ''dna_info'', fn_url = ''https://docs.rs/hdk/latest/hdk/info/fn.dna_info.html''\<rparr>,
      \<lparr>fn_name = ''zome_info'', fn_url = ''https://docs.rs/hdk/latest/hdk/info/fn.zome_info.html''\<rparr>,
      \<lparr>fn_name = ''call_info'', fn_url = ''https://docs.rs/hdk/latest/hdk/info/fn.call_info.html''\<rparr>]"

section \<open>The search relevance scorer\<close>

text \<open>\<open>SearchResult\<close>: \<open>{title, url, snippet, source}\<close>\<close>

record search_result =
  sr_title :: string
  sr_url :: string
  sr_snippet :: string
  sr_source :: string

text \<open>\<open>$(selector).text()\<close> and \<open>$(selector).first().text()\<close>\<close>

definition selectText :: "node \<Rightarrow> selector list \<Rightarrow> string" where
  "selectText doc sels = concat (map textContent (selectIn sels [] doc))"

definition selectFirstText :: "node \<Rightarrow> selector list \<Rightarrow> string" where
  "selectFirstText doc sels = (case selectIn sels [] doc of [] \<Rightarrow> [] | el # _ \<Rightarrow> textContent el)"

text \<open>
  The \<open>reduce\<close> that sums the matches of every term. A term is compiled as a regular
  expression, \<open>new RegExp(term, "gi")\<close>; the engine is the parameter \<open>rx\<close>, which for a pattern
  and a text gives the number of matches, or the message of the \<open>SyntaxError\<close> the constructor
  throws. The exception ends the \<open>reduce\<close> and \<open>Effect.try\<close> turns it into a \<open>ParseError\<close>.
\<close>

fun relevanceScore ::
  "(string \<Rightarrow> string \<Rightarrow> string + nat) \<Rightarrow> string \<Rightarrow> string list \<Rightarrow> nat \<Rightarrow> nat exit" where
  "relevanceScore rx pageText [] score = Inr score"
| "relevanceScore rx pageText (term # terms) score =
     (case rx term pageText of
        Inl msg \<Rightarrow> Inl (ParseError (''Failed to parse search results: '' @ msg))
      | Inr matches \<Rightarrow> relevanceScore rx pageText terms (score + matches))"

text \<open>The first three replacements and the final \<open>trim\<close> of a snippet.\<close>

definition cleanSnippet :: "string \<Rightarrow> string" where
  "cleanSnippet s =
     trim (collapseWhiteSpace
       (removeMatches matchEdgeLogo 0
         (removeMatches (matchLazy ''youtube play video icon'' ''logo'') 0
           (removeMatches (matchLazy ''circle with shading containing'' ''statistic'') 0 s))))"

text \<open>The same with \<open>/Navigation|Menu|Header|Footer/gi\<close> removed as well, for a candidate
  from a main content area.\<close>

definition cleanCandidate :: "string \<Rightarrow> string" where
  "cleanCandidate s =
     trim (collapseWhiteSpace
       (removeMatches (matchWords [''navigation'', ''menu'', ''header'', ''footer'']) 0
         (removeMatches matchEdgeLogo 0
           (removeMatches (matchLazy ''youtube play video icon'' ''logo'') 0
             (removeMatches (matchLazy ''circle with shading containing'' ''statistic'') 0 s)))))"

text \<open>The window of 100 characters before and 200 after \<open>index\<close>, trimmed.\<close>

definition snippetWindow :: "string \<Rightarrow> nat \<Rightarrow> string" where
  "snippetWindow text index = trim (substring text (index - 100) (min (length text) (index + 200)))"

definition mainContentSelectors :: "selector list" where
  "mainContentSelectors =
     [Compound [Class ''main-area''],
      Compound [Tag ''article''],
      Compound [Class ''content''],
      Compound [Class ''main-content''],
      Compound [Tag ''main''],
      Compound [AttrEquals ''role'' ''main''],
      Compound [Tag ''div'', AttrContains ''class'' ''content''],
      Compound [Tag ''div'', AttrContains ''class'' ''main''],
      Child (Compound [Tag ''body'']) [Tag ''div'']]"

text \<open>The \<open>for\<close> loop over the main content selectors, which ends at the first candidate
  longer than the snippet.\<close>

fun mainContentSnippet :: "node \<Rightarrow> string \<Rightarrow> string \<Rightarrow> selector list \<Rightarrow> string" where
  "mainContentSnippet doc firstTerm snippet [] = snippet"
| "mainContentSnippet doc firstTerm snippet (selector # selectors) =
     (let mainContent = trim (selectText doc [selector])
      in if mainContent \<noteq> [] \<and> length mainContent > length snippet then
           (case indexOf (toLowerCase mainContent) firstTerm of
              None \<Rightarrow> mainContentSnippet doc firstTerm snippet selectors
            | Some mainIndex \<Rightarrow>
                (let cleanSnippet = cleanCandidate (snippetWindow mainContent mainIndex)
                 in if length cleanSnippet > length snippet then cleanSnippet
                    else mainContentSnippet doc firstTerm snippet selectors))
         else mainContentSnippet doc firstTerm snippet selectors)"

definition sourceOf :: "string \<Rightarrow> string" where
  "sourceOf url =
     (if includesStr url ''developer.holochain.org'' then ''developer.holochain.org''
      else if includesStr url ''/hdk/'' then ''docs.rs/hdk'' else ''docs.rs/hdi'')"

text \<open>\<open>parseSearchResults\<close>. \<open>None\<close> is \<open>Option.none()\<close>, the absent result.\<close>

definition parseSearchResults ::
  "(string \<Rightarrow> node) \<Rightarrow> (string \<Rightarrow> string \<Rightarrow> string + nat) \<Rightarrow> string \<Rightarrow> string \<Rightarrow> string list
     \<Rightarrow> search_result option exit" where
  "parseSearchResults load rx html url searchTerms =
     (let doc = load html;
          title = (if selectText doc [Compound [Tag ''title'']] \<noteq> []
                   then selectText doc [Compound [Tag ''title'']]
                   else if selectFirstText doc [Compound [Tag ''h1'']] \<noteq> []
                   then selectFirstText doc [Compound [Tag ''h1'']]
                   else url);
          pageText = toLowerCase (selectText doc [Compound [Tag ''body'']])
      in case relevanceScore rx pageText searchTerms 0 of
           Inl e \<Rightarrow> Inl e
         | Inr score \<Rightarrow>
             if score = 0 then Inr None
             else
               (case find (\<lambda>term. includesStr pageText term) searchTerms of
                  None \<Rightarrow> Inr None
                | Some firstTerm \<Rightarrow>
                    if firstTerm = [] then Inr None
                    else
                      (let bodyText = selectText doc [Compound [Tag ''body'']];
                           index = (case indexOf (toLowerCase bodyText) firstTerm of
                                      None \<Rightarrow> 0 | Some i \<Rightarrow> i);
                           snippet = cleanSnippet (snippetWindow bodyText index);
                           snippet' =
                             (if length snippet < 50 \<or> includesStr snippet ''Circle with shading''
                              then mainContentSnippet doc firstTerm snippet mainContentSelectors
                              else snippet)
                       in Inr (Some \<lparr>sr_title = trim title, sr_url = url,
                                     sr_snippet = snippet', sr_source = sourceOf url\<rparr>))))"

text \<open>
  A regular-expression engine for patterns without metacharacters, for concrete runs: the
  matches of such a pattern are the occurrences of the pattern, case-insensitively, counted
  from the left without overlap, and the empty pattern matches at every position. Other
  patterns are outside this engine and rejected.
\<close>

fun countOccurrences :: "nat \<Rightarrow> string \<Rightarrow> string \<Rightarrow> nat" where
  "countOccurrences k [] t = (if t = [] then 1 else 0)"
| "countOccurrences (Suc k) (c # s) t = countOccurrences k s t"
| "countOccurrences 0 (c # s) t =
     (if startsWith (c # s) t then Suc (countOccurrences (length t - 1) s t)
      else countOccurrences 0 s t)"

definition isMetaChar :: "char \<Rightarrow> bool" where
  "isMetaChar c = (c = CHR 0x5C \<or> c \<in> set ''^$.*+?()[]{}|'')"

definition literalRegExp :: "string \<Rightarrow> string \<Rightarrow> string + nat" where
  "literalRegExp pattern text =
     (if list_ex isMetaChar pattern then Inl ''SyntaxError: Invalid regular expression''
      else Inr (countOccurrences 0 (toLowerCase text) (toLowerCase pattern)))"

section \<open>Searching the known pages\<close>

definition commonDeveloperPages :: "string list" where
  "commonDeveloperPages =
     [''/get-started'', ''/concepts/1_the_basics'', ''/concepts/2_application_architecture'',
      ''/concepts/3_source_chain'', ''/concepts/4_dht'', ''/concepts/5_links_anchors'',
      ''/concepts/6_zome_functions'', ''/concepts/7_validation'', ''/build'', ''/resources'']"

definition commonHDKPaths :: "string list" where
  "commonHDKPaths =
     [''/entry/index.html'', ''/link/index.html'', ''/agent/index.html'', ''/chain/index.html'',
      ''/capability/index.html'', ''/ed25519/index.html'', ''/hash/index.html'',
      ''/info/index.html'', ''/p2p/index.html'', ''/random/index.html'', ''/time/index.html'',
      ''/x_salsa20_poly1305/index.html'']"

definition commonHDIPaths :: "string list" where
  "commonHDIPaths =
     [''/entry/index.html'', ''/link/index.html'', ''/hash/index.html'',
      ''/holo_hash/index.html'', ''/map/index.html'', ''/prelude/index.html'']"

text \<open>\<open>Option.toArray\<close>\<close>

definition toArray :: "'a option \<Rightarrow> 'a list" where
  "toArray x = (case x of None \<Rightarrow> [] | Some a \<Rightarrow> [a])"

text \<open>
  The effect built for one candidate page: fetch, score, \<open>Option.toArray\<close>, and
  \<open>Effect.catchAll(() => Effect.succeed([]))\<close> around all of it.
\<close>

definition searchPage ::
  "(string \<Rightarrow> node) \<Rightarrow> (string \<Rightarrow> string \<Rightarrow> string + nat) \<Rightarrow> int \<Rightarrow> (string \<Rightarrow> net_outcome)
     \<Rightarrow> string \<Rightarrow> string \<Rightarrow> search_result list effect" where
  "searchPage load rx now net query url =
     effectCatchAll (\<lambda>_. succeed [])
       (effectMap toArray
          (flatMap (\<lambda>html. fromExit (parseSearchResults load rx html url
                                        (splitSpace (toLowerCase query))))
             (httpFetchPage now net url)))"

text \<open>\<open>Array.sortBy(Order.mapInput(Order.number, (r) => -r.snippet.length))\<close>, a stable sort,
  and \<open>Array.take(5)\<close>\<close>

definition rankResults :: "search_result list \<Rightarrow> search_result list" where
  "rankResults results = take 5 (sort_key (\<lambda>r. - int (length (sr_snippet r))) results)"

definition searchDeveloperDocs ::
  "(string \<Rightarrow> node) \<Rightarrow> (string \<Rightarrow> string \<Rightarrow> string + nat) \<Rightarrow> int \<Rightarrow> (string \<Rightarrow> net_outcome)
     \<Rightarrow> string \<Rightarrow> search_result list effect" where
  "searchDeveloperDocs load rx now net query =
     effectMap rankResults
       (effectMap concat
          (effectAll
             (map (searchPage load rx now net query)
                (map (\<lambda>page. baseUrl_developer @ page) commonDeveloperPages))))"

datatype doc_type = HDK | HDI

definition searchRustDocs ::
  "(string \<Rightarrow> node) \<Rightarrow> (string \<Rightarrow> string \<Rightarrow> string + nat) \<Rightarrow> int \<Rightarrow> (string \<Rightarrow> net_outcome)
     \<Rightarrow> string \<Rightarrow> doc_type \<Rightarrow> search_result list effect" where
  "searchRustDocs load rx now net query docType =
     (let paths = (if docType = HDK then commonHDKPaths else commonHDIPaths);
          baseUrl = (case docType of HDK \<Rightarrow> baseUrl_hdk | HDI \<Rightarrow> baseUrl_hdi)
      in effectMap rankResults
           (effectMap concat
              (effectAll
                 (map (searchPage load rx now net query)
                    (map (\<lambda>path. baseUrl @ path) paths)))))"

text \<open>The \<open>source\<close> argument of the tool \<open>search_holochain_docs\<close>, \<open>all\<close> by default.\<close>

datatype search_source = SourceAll | SourceDeveloper | SourceHdk | SourceHdi

text \<open>\<open>searchProgram\<close> of the tool handler, after the input has been decoded: the results of
  the sources asked for, appended in the order developer, hdk, hdi.\<close>

definition searchProgram ::
  "(string \<Rightarrow> node) \<Rightarrow> (string \<Rightarrow> string \<Rightarrow> string + nat) \<Rightarrow> int \<Rightarrow> (string \<Rightarrow> net_outcome)
     \<Rightarrow> string \<Rightarrow> search_source \<Rightarrow> search_result list effect" where
  "searchProgram load rx now net query source =
     flatMap (\<lambda>allResults1.
       flatMap (\<lambda>allResults2.
         flatMap (\<lambda>allResults3. succeed allResults3)
           (if source = SourceAll \<or> source = SourceHdi
            then effectMap (\<lambda>hdiResults. allResults2 @ hdiResults)
                   (searchRustDocs load rx now net query HDI)
            else succeed allResults2))
         (if source = SourceAll \<or> source = SourceHdk
          then effectMap (\<lambda>hdkResults. allResults1 @ hdkResults)
                 (searchRustDocs load rx now net query HDK)
          else succeed allResults1))
       (if source = SourceAll \<or> source = SourceDeveloper
        then effectMap (\<lambda>devResults. [] @ devResults)
               (searchDeveloperDocs load rx now net query)
        else succeed [])"

text \<open>Results in the order of descending snippet length.\<close>

definition descendingSnippets :: "search_result list \<Rightarrow> bool" where
  "descendingSnippets rs = sorted (rev (map (\<lambda>r. length (sr_snippet r)) rs))"

text \<open>The number of results of a search that succeeded.\<close>

definition resultCount :: "search_result list exit \<Rightarrow> nat" where
  "resultCount r = (case r of Inl e \<Rightarrow> 0 | Inr rs \<Rightarrow> length rs)"

text \<open>A page about the DHT, a parser that yields it for every text, and a network on which
  every request is answered.\<close>

definition dhtPage :: node where
  "dhtPage =
     Element ''html'' []
       [Element ''head'' [] [Element ''title'' [] [Text ''The DHT'']],
        Element ''body'' [] [Element ''p'' [] [Text ''The DHT is a distributed hash table.'']]]"

definition loadDhtPage :: "string \<Rightarrow> node" where
  "loadDhtPage html = dhtPage"

definition everyPageResponds :: "string \<Rightarrow> net_outcome" where
  "everyPageResponds url =
     Responds ''<title>The DHT</title><p>The DHT is a distributed hash table.</p>''"

text \<open>The result that page gives for the query \<open>dht\<close> at a URL.\<close>

definition dhtResult :: "string \<Rightarrow> search_result" where
  "dhtResult url =
     \<lparr>sr_title = ''The DHT'', sr_url = url,
      sr_snippet = ''The DHT is a distributed hash table.'', sr_source = sourceOf url\<rparr>"

text \<open>At most five results, in the order of descending snippet length.\<close>

definition atMostFiveDescending :: "search_result list \<Rightarrow> bool" where
  "atMostFiveDescending rs = (length rs \<le> 5 \<and> descendingSnippets rs)"

text \<open>A network on which every request fails.\<close>

definition everyPageFails :: "string \<Rightarrow> net_outcome" where
  "everyPageFails url = Fails ''getaddrinfo ENOTFOUND''"

section \<open>The content extractor\<close>

text \<open>\<open>DocumentationResult\<close>: \<open>{title, content, url, source}\<close>\<close>

record documentation_result =
  doc_title :: string
  doc_content :: string
  doc_url :: string
  doc_source :: string

text \<open>
  \<open>el.find(sels).remove()\<close> for selectors that look at the element alone: every descendant
  of the node that \<open>p\<close> holds of is removed, with its subtree.
\<close>

fun prune :: "(element_head \<Rightarrow> bool) \<Rightarrow> node \<Rightarrow> node"
  and pruneList :: "(element_head \<Rightarrow> bool) \<Rightarrow> node list \<Rightarrow> node list" where
  "prune p (Text s) = Text s"
| "prune p (Element t as cs) = Element t as (pruneList p cs)"
| "pruneList p [] = []"
| "pruneList p (Text s # cs) = Text s # pruneList p cs"
| "pruneList p (Element t as ds # cs) =
     (if p (t, as) then pruneList p cs else Element t as (pruneList p ds) # pruneList p cs)"

text \<open>
  The same removal done in the document itself, below every element that the selector list
  matches: the document after \<open>$(selector).find(sels).remove()\<close>.
\<close>

fun pruneWithin :: "selector list \<Rightarrow> (element_head \<Rightarrow> bool) \<Rightarrow> element_head list \<Rightarrow> node \<Rightarrow> node" where
  "pruneWithin sels p anc (Text s) = Text s"
| "pruneWithin sels p anc (Element t as cs) =
     (if list_ex (\<lambda>sel. matchesSelector sel (t, as) anc) sels then prune p (Element t as cs)
      else Element t as (map (pruneWithin sels p ((t, as) # anc)) cs))"

definition matchesAny :: "simple_selector list \<Rightarrow> element_head \<Rightarrow> bool" where
  "matchesAny sels e = list_ex (\<lambda>s. matchesSimple s e) sels"

text \<open>\<open>nav, header, footer, script, style, .nav, .header, .footer, .menu, .sidebar,
  .navigation\<close>; the clean-up of the body leaves \<open>.navigation\<close> out.\<close>

definition noiseSelectors :: "simple_selector list" where
  "noiseSelectors =
     [Tag ''nav'', Tag ''header'', Tag ''footer'', Tag ''script'', Tag ''style'', Class ''nav'',
      Class ''header'', Class ''footer'', Class ''menu'', Class ''sidebar'', Class ''navigation'']"

definition bodyNoiseSelectors :: "simple_selector list" where
  "bodyNoiseSelectors =
     [Tag ''nav'', Tag ''header'', Tag ''footer'', Tag ''script'', Tag ''style'', Class ''nav'',
      Class ''header'', Class ''footer'', Class ''menu'', Class ''sidebar'']"

definition developerContentSelectors :: "selector list" where
  "developerContentSelectors =
     [Compound [Class ''main-area''],
      Compound [Tag ''article''],
      Compound [Class ''content''],
      Compound [Class ''main-content''],
      Compound [Tag ''main''],
      Compound [AttrEquals ''role'' ''main''],
      Descendant (Compound [Class ''container'']) [Class ''content''],
      Compound [Class ''page-content''],
      Compound [Class ''documentation''],
      Compound [Class ''docs-content''],
      Compound [Tag ''div'', AttrContains ''class'' ''content''],
      Compound [Tag ''div'', AttrContains ''class'' ''main''],
      Compound [Tag ''div'', AttrContains ''id'' ''content''],
      Compound [Tag ''div'', AttrContains ''id'' ''main''],
      Child (Compound [Tag ''body'']) [Tag ''div'']]"

text \<open>The body of \<open>elements.each\<close>: the candidate replaces the content when its score
  exceeds the length of the content by more than 100.\<close>

definition betterContent :: "node \<Rightarrow> string \<Rightarrow> string" where
  "betterContent element pageText =
     (let candidateContent = trim (textContent (prune (matchesAny noiseSelectors) element));
          lower = toLowerCase candidateContent;
          hasRelevantContent =
            (includesStr lower ''holochain'' \<or> includesStr lower ''validation''
             \<or> includesStr lower ''dht'' \<or> includesStr lower ''entry''
             \<or> includesStr lower ''link'');
          contentScore = length candidateContent + (if hasRelevantContent then 500 else 0)
      in if contentScore > length pageText + 100 then candidateContent else pageText)"

text \<open>The loop over the content selectors, left at the first selector after which the content
  has more than 100 characters.\<close>

fun developerContent :: "node \<Rightarrow> selector list \<Rightarrow> string \<Rightarrow> string" where
  "developerContent doc [] pageText = pageText"
| "developerContent doc (selector # selectors) pageText =
     (let elements = selectIn [selector] [] doc
      in if elements \<noteq> [] then
           (let pageText' = fold betterContent elements pageText
            in if length pageText' > 100 then pageText'
               else developerContent doc selectors pageText')
         else developerContent doc selectors pageText)"

text \<open>\<open>/^\s*(Navigation|Menu|Header|Footer)\s*/gi\<close>: at most one match, at the start.\<close>

definition removeLeadingLabel :: "string \<Rightarrow> string" where
  "removeLeadingLabel s =
     (let s1 = dropWhile isWhiteSpace s
      in case find (startsWithCI s1) [''navigation'', ''menu'', ''header'', ''footer''] of
           None \<Rightarrow> s
         | Some w \<Rightarrow> dropWhile isWhiteSpace (drop (length w) s1))"

definition cleanDeveloperContent :: "string \<Rightarrow> string" where
  "cleanDeveloperContent s =
     trim (removeLeadingLabel
       (removeMatches matchEdgeLogo 0
         (removeMatches (matchLazy ''youtube play video icon'' ''logo'') 0
           (removeMatches (matchLazy ''circle with shading containing'' ''statistic'') 0
             (removeMatches
                (matchWords [''get started'', ''developers'', ''navigation'', ''menu'', ''search'',
                             ''home'', ''back to top'', ''skip to'', ''table of contents'']) 0
                (collapseWhiteSpace s))))))"

text \<open>The branch for \<open>developer.holochain.org\<close>: title, content, source.\<close>

definition parseDeveloperPage :: "node \<Rightarrow> string \<times> string \<times> string" where
  "parseDeveloperPage doc =
     (let pageText = developerContent doc developerContentSelectors [];
          pageText1 =
            (if pageText = [] \<or> length pageText < 100
             then trim (concat (map (\<lambda>b. textContent (prune (matchesAny bodyNoiseSelectors) b))
                                  (selectIn [Compound [Tag ''body'']] [] doc)))
             else pageText);
          title = (if trim (selectText doc [Compound [Tag ''title'']]) \<noteq> []
                   then trim (selectText doc [Compound [Tag ''title'']])
                   else trim (selectFirstText doc [Compound [Tag ''h1'']]));
          pageText2 = cleanDeveloperContent pageText1
      in (trim title,
          if pageText2 = [] then ''Error: Could not extract main content.'' else pageText2,
          ''developer.holochain.org''))"

text \<open>\<open>.item-info\<close>, \<open>.item-decl\<close>, \<open>.content\<close>, \<open>main\<close>, \<open>.main-content\<close>\<close>

definition rustContentSelectors :: "selector list" where
  "rustContentSelectors =
     [Compound [Class ''item-info''], Compound [Class ''item-decl''], Compound [Class ''content''],
      Compound [Tag ''main''], Compound [Class ''main-content'']]"

definition navSelectors :: "simple_selector list" where
  "navSelectors = [Tag ''nav'', Class ''nav'', Class ''sidebar'']"

text \<open>
  The loop that gathers content when there is no doc block. \<open>element.find(...).remove()\<close>
  works on the document itself, so the document is part of the state of the loop; the text of
  the matched elements is read after the removal. The loop is left at the first text of more
  than 20 characters.
\<close>

fun gatherContent :: "node \<Rightarrow> selector list \<Rightarrow> string \<Rightarrow> string \<times> node" where
  "gatherContent doc [] pageText = (pageText, doc)"
| "gatherContent doc (selector # selectors) pageText =
     (let element = selectIn [selector] [] doc
      in if element \<noteq> [] then
           (let doc' = pruneWithin [selector] (matchesAny navSelectors) [] doc;
                pageText' = trim (concat (map (\<lambda>el. textContent (prune (matchesAny navSelectors) el))
                                           element))
            in if length pageText' > 20 then (pageText', doc')
               else gatherContent doc' selectors pageText')
         else gatherContent doc selectors pageText)"

text \<open>\<open>xs.join("\n\n")\<close>\<close>

fun joinBlocks :: "string list \<Rightarrow> string" where
  "joinBlocks [] = []"
| "joinBlocks [x] = x"
| "joinBlocks (x # y # xs) = x @ [CHR 0x0A, CHR 0x0A] @ joinBlocks (y # xs)"

text \<open>\<open>title.replace(/^(pub\s+)?(fn\s+)?/, "")\<close>: each keyword goes, when white space
  follows it, together with that white space.\<close>

definition stripKeyword :: "string \<Rightarrow> string \<Rightarrow> string" where
  "stripKeyword kw s =
     (if startsWith s kw \<and> drop (length kw) s \<noteq> [] \<and> isWhiteSpace (hd (drop (length kw) s))
      then dropWhile isWhiteSpace (drop (length kw) s) else s)"

text \<open>The title of a \<open>docs.rs\<close> page, before its keywords are stripped.\<close>

definition rustTitle :: "node \<Rightarrow> string" where
  "rustTitle doc =
     (if selectText doc [Compound [Class ''fqn'']] \<noteq> []
      then selectText doc [Compound [Class ''fqn'']]
      else if selectText doc [Compound [Tag ''h1'', Class ''fqn'']] \<noteq> []
      then selectText doc [Compound [Tag ''h1'', Class ''fqn'']]
      else if selectFirstText doc [Compound [Tag ''h1'']] \<noteq> []
      then selectFirstText doc [Compound [Tag ''h1'']]
      else selectText doc [Compound [Tag ''title'']])"

text \<open>The doc blocks, trimmed, the empty ones dropped, joined by blank lines.\<close>

definition docblockContent :: "node \<Rightarrow> string" where
  "docblockContent doc =
     (let docblocks = selectIn [Compound [Class ''docblock'']] [] doc
      in if docblocks \<noteq> []
         then joinBlocks (filter (\<lambda>t. length t > 0) (map (\<lambda>el. trim (textContent el)) docblocks))
         else [])"

text \<open>The signature line is put in front of content that is short, or that has neither
  \<open>externresult\<close> nor the signature in it.\<close>

definition withSignature :: "string \<Rightarrow> string \<Rightarrow> string" where
  "withSignature fqnContent pageText =
     (if fqnContent \<noteq> [] then
        (if pageText = [] \<or> length pageText < 50 then
           ''Function signature: '' @ fqnContent @ [CHR 0x0A, CHR 0x0A]
           @ (if pageText = [] then ''No additional documentation available.'' else pageText)
         else if \<not> includesStr (toLowerCase pageText) ''externresult''
                 \<and> \<not> includesStr pageText fqnContent
         then ''Function signature: '' @ fqnContent @ [CHR 0x0A, CHR 0x0A] @ pageText
         else pageText)
      else pageText)"

text \<open>The text of the body as the last resort for content that is still short.\<close>

definition bodyFallback :: "node \<Rightarrow> string \<Rightarrow> string" where
  "bodyFallback doc pageText =
     (if pageText = [] \<or> length pageText < 50 then
        (let bodyContent = trim (selectText doc [Compound [Tag ''body'']])
         in if bodyContent \<noteq> [] \<and> length bodyContent > length pageText then bodyContent
            else pageText)
      else pageText)"

text \<open>The branch for \<open>docs.rs\<close>.\<close>

definition parseRustPage :: "node \<Rightarrow> string \<Rightarrow> string \<times> string \<times> string" where
  "parseRustPage doc url =
     (let title = rustTitle doc;
          pageText0 = docblockContent doc;
          (pageText1, doc1) = (if pageText0 = [] then gatherContent doc rustContentSelectors pageText0
                               else (pageText0, doc));
          pageText2 = withSignature (trim (selectText doc1 [Compound [Class ''fqn'']])) pageText1;
          pageText3 = bodyFallback doc1 pageText2;
          title' = trim (stripKeyword ''fn'' (stripKeyword ''pub'' title));
          pageText4 = trim (collapseWhiteSpace pageText3)
      in (if title' = [] then ''Documentation'' else title',
          if length pageText4 > 0 then pageText4 else ''No documentation content found.'',
          if includesStr url ''/hdk/'' then ''docs.rs/hdk'' else ''docs.rs/hdi''))"

text \<open>The branch for every other URL.\<close>

definition parseUnknownPage :: "node \<Rightarrow> string \<times> string \<times> string" where
  "parseUnknownPage doc =
     (if selectText doc [Compound [Tag ''title'']] \<noteq> []
      then selectText doc [Compound [Tag ''title'']] else ''Unknown'',
      if trim (collapseWhiteSpace (selectText doc [Compound [Tag ''body'']])) \<noteq> []
      then trim (collapseWhiteSpace (selectText doc [Compound [Tag ''body'']]))
      else ''No content found.'',
      ''unknown'')"

text \<open>\<open>parseDocumentationPage\<close>: the branch is chosen by the URL, and the title and the content
  are trimmed once more.\<close>

definition parseDocumentationPage ::
  "(string \<Rightarrow> node) \<Rightarrow> string \<Rightarrow> string \<Rightarrow> documentation_result exit" where
  "parseDocumentationPage load html url =
     (let doc = load html;
          (title, pageText, source) =
            (if includesStr url ''developer.holochain.org'' then parseDeveloperPage doc
             else if includesStr url ''docs.rs'' then parseRustPage doc url
             else parseUnknownPage doc)
      in Inr \<lparr>doc_title = trim title, doc_content = trim pageText, doc_url = url,
               doc_source = source\<rparr>)"

text \<open>\<open>fetchDocumentationPage\<close>: a \<open>FetchError\<close> becomes a \<open>NotFoundError\<close>.\<close>

definition fetchDocumentationPage ::
  "(string \<Rightarrow> node) \<Rightarrow> int \<Rightarrow> (string \<Rightarrow> net_outcome) \<Rightarrow> string \<Rightarrow> documentation_result effect" where
  "fetchDocumentationPage load now net url =
     effectMapError
       (\<lambda>error. case error of
                  FetchError msg \<Rightarrow> NotFoundError (''Documentation page not found: '' @ url)
                | _ \<Rightarrow> error)
       (flatMap (\<lambda>html. fromExit (parseDocumentationPage load html url))
          (httpFetchPage now net url))"

section \<open>The concept resolver\<close>

text \<open>\<open>Object.entries(conceptMappings)\<close>: the entries in the order they are written (no key is
  an integer index).\<close>

definition conceptMappings :: "(string \<times> string) list" where
  "conceptMappings =
     [(''source chain'', ''/concepts/3_source_chain''),
      (''dht'', ''/concepts/4_dht''),
      (''links'', ''/concepts/5_links_anchors''),
      (''anchors'', ''/concepts/5_links_anchors''),
      (''zome'', ''/concepts/6_zome_functions''),
      (''validation'', ''/concepts/7_validation''),
      (''architecture'', ''/concepts/2_application_architecture''),
      (''basics'', ''/concepts/1_the_basics'')]"

text \<open>\<open>Array.findFirst\<close>\<close>

fun findFirst :: "('a \<Rightarrow> bool) \<Rightarrow> 'a list \<Rightarrow> 'a option" where
  "findFirst p [] = None"
| "findFirst p (x # xs) = (if p x then Some x else findFirst p xs)"

definition getConceptDocs ::
  "(string \<Rightarrow> node) \<Rightarrow> int \<Rightarrow> (string \<Rightarrow> net_outcome) \<Rightarrow> string \<Rightarrow> documentation_result effect" where
  "getConceptDocs load now net concept =
     (let normalizedConcept = toLowerCase concept
      in case findFirst (\<lambda>(key, path). includesStr normalizedConcept key
                                        \<or> includesStr key normalizedConcept) conceptMappings of
           None \<Rightarrow> failWith (NotFoundError (''Concept not found: '' @ concept))
         | Some (key, path) \<Rightarrow> fetchDocumentationPage load now net (baseUrl_developer @ path))"

text \<open>Bidirectional containment of a table key and the normalised phrase.\<close>

definition spec_conceptMatches :: "string \<Rightarrow> string \<times> string \<Rightarrow> bool" where
  "spec_conceptMatches phrase entry = (includesStr phrase (fst entry) \<or> includesStr (fst entry) phrase)"

text \<open>The page of the scenario: a \<open>.fqn\<close> element and nothing else.\<close>

definition fqnPage :: node where
  "fqnPage =
     Element ''html'' []
       [Element ''head'' [] [],
        Element ''body'' [] [Element ''div'' [(''class'', ''fqn'')] [Text ''pub fn create_entry(...)'']]]"

definition loadFqnPage :: "string \<Rightarrow> node" where
  "loadFqnPage html = fqnPage"

text \<open>The title and the content of a result, empty for an error.\<close>

definition titleOf :: "documentation_result exit \<Rightarrow> string" where
  "titleOf r = (case r of Inl e \<Rightarrow> [] | Inr d \<Rightarrow> doc_title d)"

definition contentOf :: "documentation_result exit \<Rightarrow> string" where
  "contentOf r = (case r of Inl e \<Rightarrow> [] | Inr d \<Rightarrow> doc_content d)"







section \<open>Properties of the cache and of fetchPage\<close>

lemma shouldCache_isGoodCache: "shouldCache c = isGoodCache c"
  by (simp add: shouldCache_def isGoodCache_def)

lemma cacheAllGood_delete: "cacheAllGood cache \<Longrightarrow> cacheAllGood (AList.delete url cache)"
  by (auto simp: cacheAllGood_def list_all_iff AList.delete_eq)

lemma cacheAllGood_update:
  "cacheAllGood cache \<Longrightarrow> isGoodCache (content v) \<Longrightarrow> cacheAllGood (AList.update url v cache)"
  by (induction cache) (auto simp: cacheAllGood_def)

lemma cacheAllGood_filter: "cacheAllGood cache \<Longrightarrow> cacheAllGood (filter P cache)"
  by (auto simp: cacheAllGood_def list_all_iff)

lemma cacheAllGood_cacheRead:
  "cacheAllGood cache \<Longrightarrow> cacheAllGood (snd (cacheRead now url cache))"
  by (auto simp: cacheRead_def cacheAllGood_delete split: option.splits)

lemma cacheAllGood_fetchAndCache:
  "cacheAllGood cache \<Longrightarrow> cacheAllGood (snd (fetchAndCache now url c cache))"
  by (auto simp: fetchAndCache_def Let_def cacheAllGood_delete cacheAllGood_update
      cacheAllGood_filter shouldCache_isGoodCache)

lemma cacheAllGood_fetchStatic:
  "cacheAllGood cache \<Longrightarrow> cacheAllGood (snd (fetchStatic now url outcome cache))"
  by (cases outcome) (simp_all add: fetchStatic_def Let_def split_beta cacheAllGood_fetchAndCache)

lemma cacheAllGood_fetchRendered:
  "cacheAllGood cache \<Longrightarrow> cacheAllGood (snd (fetchRendered now url outcome cache))"
  by (cases outcome) (simp_all add: fetchRendered_def Let_def split_beta cacheAllGood_fetchAndCache)

lemma cacheAllGood_fetchPage:
  "cacheAllGood cache \<Longrightarrow> cacheAllGood (snd (fetchPage now now' url outcome cache))"
  using cacheAllGood_cacheRead [of cache now url]
  by (auto simp: fetchPage_def cacheAllGood_fetchStatic cacheAllGood_fetchRendered
      split: prod.splits option.splits)

lemma fetchAndCache_bad:
  "\<not> shouldCache c \<Longrightarrow> fetchAndCache now url c cache = (c, AList.delete url cache)"
  by (simp add: fetchAndCache_def)

lemma map_of_delete_same: "map_of (AList.delete url cache) url = None"
  by (simp add: AList.delete_conv')

lemma cacheRead_absent: "map_of cache url = None \<Longrightarrow> cacheRead now url cache = (None, cache)"
  by (simp add: cacheRead_def)

text \<open>
  C1. Content that fails the quality gate (trimmed length at most 100, or one of the markers
  \<open>404\<close>, \<open>Not Found\<close>, \<open>Error\<close>) is not stored by \<open>fetchAndCache\<close>: the URL has no entry
  afterwards and the next cache read misses. A cache read that hits (within the TTL) an entry
  failing the gate deletes it and reports a miss. Starting from the empty cache, the cache read,
  \<open>fetchAndCache\<close> and the whole of \<open>fetchPage\<close> keep every resident entry good.
\<close>

theorem cache_quality_gate:
  "((length (trim c) \<le> 100 \<or> includesStr c ''404'' \<or> includesStr c ''Not Found''
      \<or> includesStr c ''Error'') \<longrightarrow>
      snd (fetchAndCache now url c cache) = AList.delete url cache
      \<and> map_of (snd (fetchAndCache now url c cache)) url = None
      \<and> fst (cacheRead now' url (snd (fetchAndCache now url c cache))) = None)
   \<and> (map_of stored url = Some e \<and> now' - timestamp e < CACHE_TTL
        \<and> (length (trim (content e)) \<le> 100 \<or> includesStr (content e) ''404''
            \<or> includesStr (content e) ''Not Found'' \<or> includesStr (content e) ''Error'') \<longrightarrow>
        cacheRead now' url stored = (None, AList.delete url stored)
        \<and> map_of (snd (cacheRead now' url stored)) url = None)
   \<and> (cacheAllGood cache \<longrightarrow>
        cacheAllGood (snd (cacheRead now url cache))
        \<and> cacheAllGood (snd (fetchAndCache now url c cache))
        \<and> cacheAllGood (snd (fetchPage now now' url outcome cache)))
   \<and> cacheAllGood []"
proof (intro conjI impI)
  assume bad: "length (trim c) \<le> 100 \<or> includesStr c ''404'' \<or> includesStr c ''Not Found''
      \<or> includesStr c ''Error''"
  then have ns: "\<not> shouldCache c" by (auto simp: shouldCache_def)
  show "snd (fetchAndCache now url c cache) = AList.delete url cache"
    by (simp add: fetchAndCache_bad [OF ns])
  show "map_of (snd (fetchAndCache now url c cache)) url = None"
    by (simp add: fetchAndCache_bad [OF ns] map_of_delete_same)
  show "fst (cacheRead now' url (snd (fetchAndCache now url c cache))) = None"
    by (simp add: fetchAndCache_bad [OF ns] map_of_delete_same cacheRead_absent)
next
  assume h: "map_of stored url = Some e \<and> now' - timestamp e < CACHE_TTL
        \<and> (length (trim (content e)) \<le> 100 \<or> includesStr (content e) ''404''
            \<or> includesStr (content e) ''Not Found'' \<or> includesStr (content e) ''Error'')"
  then have ng: "\<not> isGoodCache (content e)" by (auto simp: isGoodCache_def)
  with h show r: "cacheRead now' url stored = (None, AList.delete url stored)"
    by (simp add: cacheRead_def)
  show "map_of (snd (cacheRead now' url stored)) url = None"
    by (simp add: r map_of_delete_same)
next
  assume "cacheAllGood cache"
  then show "cacheAllGood (snd (cacheRead now url cache))"
    "cacheAllGood (snd (fetchAndCache now url c cache))"
    "cacheAllGood (snd (fetchPage now now' url outcome cache))"
    by (rule cacheAllGood_cacheRead cacheAllGood_fetchAndCache cacheAllGood_fetchPage)+
next
  show "cacheAllGood []" by (simp add: cacheAllGood_def)
qed

text \<open>
  C10. When the cache read misses and the network answers with content \<open>c\<close>, \<open>fetchPage\<close>
  succeeds with exactly \<open>c\<close>, whatever the quality gate says about \<open>c\<close>; content failing the
  gate is only kept out of the cache.
\<close>

theorem fetchPage_returns_fetched_content:
  "fst (cacheRead now url cache) = None \<Longrightarrow>
     fst (fetchPage now now' url (Responds c) cache) = Inr c
     \<and> (\<not> shouldCache c \<longrightarrow> map_of (snd (fetchPage now now' url (Responds c) cache)) url = None)"
  by (cases "cacheRead now url cache")
     (auto simp: fetchPage_def fetchStatic_def fetchRendered_def fetchAndCache_def Let_def
        timeout_def mapError_def map_of_delete_same)

text \<open>
  C6. On the static path a transport failure and a timeout end in the same value: the second
  \<open>Effect.mapError\<close> of the pipe rewrites the \<open>Failed to fetch\<close> error of the first one, so both
  causes are reported as \<open>Timeout fetching\<close>.
\<close>

theorem fetchStatic_failure_reported_as_timeout:
  "fst (fetchPage 0 0 ''https://docs.rs/hdk/latest/hdk/index.html'' (Fails ''connect ECONNREFUSED'') [])
     = Inl (FetchError ''Timeout fetching: https://docs.rs/hdk/latest/hdk/index.html'')
   \<and> fst (fetchPage 0 0 ''https://docs.rs/hdk/latest/hdk/index.html'' Hangs [])
     = Inl (FetchError ''Timeout fetching: https://docs.rs/hdk/latest/hdk/index.html'')"
  by (simp add: fetchPage_def cacheRead_def fetchStatic_def timeout_def mapError_def)

lemma goodPage_good: "isGoodCache goodPage"
  by (simp add: isGoodCache_def goodPage_def trim_def isWhiteSpace_def)

theorem cache_quality_gate_witness:
  "includesStr ''<h1>404</h1>'' ''404''
   \<and> fst (cacheRead 7 ''https://docs.rs/hdk/latest/hdk/index.html''
         (snd (fetchAndCache 5 ''https://docs.rs/hdk/latest/hdk/index.html'' ''<h1>404</h1>''
            [(''https://docs.rs/hdi/latest/hdi/index.html'', \<lparr>content = goodPage, timestamp = 1\<rparr>)]))) = None
   \<and> cacheRead 7 ''https://docs.rs/hdk/latest/hdk/index.html''
         [(''https://docs.rs/hdk/latest/hdk/index.html'', \<lparr>content = ''Error'', timestamp = 2\<rparr>)]
       = (None, [])
   \<and> cacheAllGood [(''https://docs.rs/hdi/latest/hdi/index.html'', \<lparr>content = goodPage, timestamp = 1\<rparr>)]
   \<and> cacheAllGood (snd (fetchPage 5 7 ''https://docs.rs/hdk/latest/hdk/index.html'' (Responds ''<h1>404</h1>'')
         [(''https://docs.rs/hdi/latest/hdi/index.html'', \<lparr>content = goodPage, timestamp = 1\<rparr>)]))"
proof -
  have h1: "includesStr ''<h1>404</h1>'' ''404''" by simp
  have h2: "map_of [(''https://docs.rs/hdk/latest/hdk/index.html'', \<lparr>content = ''Error'', timestamp = 2\<rparr>)]
       ''https://docs.rs/hdk/latest/hdk/index.html'' = Some \<lparr>content = ''Error'', timestamp = 2\<rparr>
     \<and> 7 - timestamp \<lparr>content = ''Error'', timestamp = 2\<rparr> < CACHE_TTL
     \<and> includesStr (content \<lparr>content = ''Error'', timestamp = 2\<rparr>) ''Error''"
    by (simp add: CACHE_TTL_def)
  have h3: "cacheAllGood [(''https://docs.rs/hdi/latest/hdi/index.html'', \<lparr>content = goodPage, timestamp = 1\<rparr>)]"
    by (simp add: cacheAllGood_def goodPage_good)
  from h1 h2 h3
    cache_quality_gate [of "''<h1>404</h1>''" 5 "''https://docs.rs/hdk/latest/hdk/index.html''"
      "[(''https://docs.rs/hdi/latest/hdi/index.html'', \<lparr>content = goodPage, timestamp = 1\<rparr>)]" 7
      "[(''https://docs.rs/hdk/latest/hdk/index.html'', \<lparr>content = ''Error'', timestamp = 2\<rparr>)]"
      "\<lparr>content = ''Error'', timestamp = 2\<rparr>" "Responds ''<h1>404</h1>''"]
  show ?thesis by (simp add: cacheRead_def)
qed

theorem fetchPage_returns_fetched_content_witness:
  "fst (cacheRead 5 ''https://docs.rs/hdk/latest/hdk/missing.html'' []) = None
   \<and> \<not> shouldCache ''404 Not Found''
   \<and> fst (fetchPage 5 6 ''https://docs.rs/hdk/latest/hdk/missing.html'' (Responds ''404 Not Found'') [])
       = Inr ''404 Not Found''"
proof -
  have h: "fst (cacheRead 5 ''https://docs.rs/hdk/latest/hdk/missing.html'' []) = None"
    by (simp add: cacheRead_def)
  have b: "\<not> shouldCache ''404 Not Found''"
    by (simp add: shouldCache_def)
  from fetchPage_returns_fetched_content [OF h, of 6 "''404 Not Found''"] h b
  show ?thesis by simp
qed

section \<open>Properties of the function index\<close>


lemma spec_firstByName_subset: "set (spec_firstByName cs) \<subseteq> set cs"
  by (induction cs rule: spec_firstByName.induct) auto

lemma spec_firstByName_names: "fst ` set (spec_firstByName cs) = fst ` set cs"
proof (induction cs rule: spec_firstByName.induct)
  case 1
  then show ?case by simp
next
  case (2 n u cs)
  have "fst ` set (filter (\<lambda>c. fst c \<noteq> n) cs) = fst ` set cs - {n}" by auto
  with 2 show ?case by auto
qed

lemma spec_firstByName_distinct: "distinct (map fst (spec_firstByName cs))"
proof (induction cs rule: spec_firstByName.induct)
  case 1
  then show ?case by simp
next
  case (2 n u cs)
  have "n \<notin> fst ` set (filter (\<lambda>c. fst c \<noteq> n) cs)" by auto
  then have "n \<notin> fst ` set (spec_firstByName (filter (\<lambda>c. fst c \<noteq> n) cs))"
    by (simp add: spec_firstByName_names)
  with 2 show ?case by simp
qed

lemma map_of_filter_other: "k \<noteq> n \<Longrightarrow> map_of (filter (\<lambda>c. fst c \<noteq> n) cs) k = map_of cs k"
  by (induction cs) auto

lemma spec_firstByName_map_of: "map_of (spec_firstByName cs) = map_of cs"
proof (induction cs rule: spec_firstByName.induct)
  case 1
  then show ?case by simp
next
  case (2 n u cs)
  show ?case
  proof
    fix k
    show "map_of (spec_firstByName ((n, u) # cs)) k = map_of ((n, u) # cs) k"
      using 2 by (simp add: map_of_filter_other)
  qed
qed

lemma fold_addCandidate:
  "fold addCandidate cs (fs, map fn_name fs) =
     (fs @ map mkFunction (spec_firstByName (filter (\<lambda>c. fst c \<notin> fn_name ` set fs) cs)),
      map fn_name (fs @ map mkFunction (spec_firstByName (filter (\<lambda>c. fst c \<notin> fn_name ` set fs) cs))))"
proof (induction cs arbitrary: fs)
  case Nil
  then show ?case by simp
next
  case (Cons c cs)
  obtain n u where c: "c = (n, u)" by (cases c)
  show ?case
  proof (cases "n \<in> fn_name ` set fs")
    case True
    then have "addCandidate c (fs, map fn_name fs) = (fs, map fn_name fs)"
      by (simp add: addCandidate_def addFunction_def c)
    then have "fold addCandidate (c # cs) (fs, map fn_name fs)
        = fold addCandidate cs (fs, map fn_name fs)" by simp
    moreover have "filter (\<lambda>c. fst c \<notin> fn_name ` set fs) (c # cs)
        = filter (\<lambda>c. fst c \<notin> fn_name ` set fs) cs"
      using True by (simp add: c)
    ultimately show ?thesis by (simp only: Cons)
  next
    case False
    let ?fs = "fs @ [\<lparr>fn_name = n, fn_url = u\<rparr>]"
    have step: "addCandidate c (fs, map fn_name fs) = (?fs, map fn_name ?fs)"
      using False by (simp add: addCandidate_def addFunction_def c)
    have flt: "filter (\<lambda>c. fst c \<notin> fn_name ` set ?fs) cs
        = filter (\<lambda>c. fst c \<noteq> n) (filter (\<lambda>c. fst c \<notin> fn_name ` set fs) cs)"
      by (auto intro: filter_cong)
    have fc: "filter (\<lambda>c. fst c \<notin> fn_name ` set fs) (c # cs)
        = (n, u) # filter (\<lambda>c. fst c \<notin> fn_name ` set fs) cs"
      using False by (simp add: c)
    have "fold addCandidate (c # cs) (fs, map fn_name fs)
        = fold addCandidate cs (?fs, map fn_name ?fs)"
      by (simp add: step)
    also have "\<dots> = (?fs @ map mkFunction (spec_firstByName (filter (\<lambda>c. fst c \<notin> fn_name ` set ?fs) cs)),
        map fn_name (?fs @ map mkFunction (spec_firstByName (filter (\<lambda>c. fst c \<notin> fn_name ` set ?fs) cs))))"
      by (rule Cons)
    also have "?fs @ map mkFunction (spec_firstByName (filter (\<lambda>c. fst c \<notin> fn_name ` set ?fs) cs))
        = fs @ map mkFunction (spec_firstByName (filter (\<lambda>c. fst c \<notin> fn_name ` set fs) (c # cs)))"
      by (simp only: flt fc spec_firstByName.simps) (simp add: mkFunction_def)
    finally show ?thesis .
  qed
qed

lemma visitFunctionLink_candidate:
  "visitFunctionLink baseUrl el st =
     (case spec_linkCandidate baseUrl el of None \<Rightarrow> st | Some c \<Rightarrow> addCandidate c st)"
  by (auto simp: visitFunctionLink_def spec_linkCandidate_def addCandidate_def
      split: option.splits)

lemma fold_visitFunctionLink:
  "fold (visitFunctionLink baseUrl) els st
     = fold addCandidate (List.map_filter (spec_linkCandidate baseUrl) els) st"
  by (induction els arbitrary: st)
     (auto simp: visitFunctionLink_candidate List.map_filter_simps split: option.splits)

lemma fold_selectors:
  "fold (\<lambda>selector st. fold (visitFunctionLink baseUrl) (selectIn [selector] [] doc) st) sels st
     = fold addCandidate
         (concat (map (\<lambda>selector. List.map_filter (spec_linkCandidate baseUrl) (selectIn [selector] [] doc)) sels)) st"
  by (induction sels arbitrary: st) (simp_all add: fold_visitFunctionLink)

lemma fold_common:
  "fold (\<lambda>funcName. addFunction funcName (baseUrl @ ''/'' @ module @ ''/fn.'' @ funcName @ ''.html'')) fs st
     = fold addCandidate (map (\<lambda>f. (f, baseUrl @ ''/'' @ module @ ''/fn.'' @ f @ ''.html'')) fs) st"
  by (induction fs arbitrary: st) (simp_all add: addCandidate_def)

lemma fold_modules:
  "fold (\<lambda>module st.
           case map_of commonFunctions module of
             None \<Rightarrow> st
           | Some fs \<Rightarrow>
               fold (\<lambda>funcName. addFunction funcName
                       (baseUrl @ ''/'' @ module @ ''/fn.'' @ funcName @ ''.html'')) fs st)
        modules st
     = fold addCandidate (spec_curatedCandidates baseUrl) st"
  by (simp add: modules_def commonFunctions_def spec_curatedCandidates_def addCandidate_def)

lemma parseHdkIndex_spec:
  "parseHdkIndex load html baseUrl
     = Inr (map mkFunction (spec_firstByName (spec_indexCandidates (load html) baseUrl)))"
proof -
  have "fold addCandidate (spec_indexCandidates (load html) baseUrl) ([], map fn_name [])
      = (map mkFunction (spec_firstByName (spec_indexCandidates (load html) baseUrl)),
         map fn_name (map mkFunction (spec_firstByName (spec_indexCandidates (load html) baseUrl))))"
    using fold_addCandidate [of "spec_indexCandidates (load html) baseUrl" "[]"] by simp
  then show ?thesis
    by (simp add: parseHdkIndex_def Let_def fold_selectors fold_modules spec_indexCandidates_def)
qed

lemma entryOf_mkFunction: "map entryOf (map mkFunction cs) = cs"
  by (induction cs) (simp_all add: entryOf_def mkFunction_def)

lemma fn_name_mkFunction: "map fn_name (map mkFunction cs) = map fst cs"
  by (induction cs) (simp_all add: mkFunction_def)

lemma count_one: "distinct (map f xs) \<Longrightarrow> x \<in> set xs \<Longrightarrow> length (filter (\<lambda>y. f y = f x) xs) = 1"
proof (induction xs)
  case Nil
  then show ?case by simp
next
  case (Cons a xs)
  show ?case
  proof (cases "a = x")
    case True
    from Cons.prems have "f x \<notin> f ` set xs" using True by simp
    then have "filter (\<lambda>y. f y = f x) xs = []"
      unfolding filter_empty_conv by (metis image_eqI)
    with True show ?thesis by simp
  next
    case False
    with Cons.prems have "x \<in> set xs" by simp
    moreover from Cons.prems this have "f a \<noteq> f x" by auto
    ultimately show ?thesis using Cons by simp
  qed
qed

lemma count_one_name:
  assumes "distinct (map f xs)" and "a \<in> f ` set xs"
  shows "length (filter (\<lambda>y. f y = a) xs) = 1"
proof -
  from assms(2) obtain x where x: "a = f x" "x \<in> set xs" by (rule imageE)
  from count_one [OF assms(1) x(2)] show ?thesis by (simp only: x(1))
qed

lemma create_entry_curated: "''create_entry'' \<in> fst ` set (spec_indexCandidates doc baseUrl)"
proof -
  have "spec_curatedCandidates baseUrl
      = (''create_entry'', baseUrl @ ''/entry/fn.create_entry.html'') # tl (spec_curatedCandidates baseUrl)"
    by (simp add: spec_curatedCandidates_def commonFunctions_def)
  then have "(''create_entry'', baseUrl @ ''/entry/fn.create_entry.html'') \<in> set (spec_curatedCandidates baseUrl)"
    by (metis list.set_intros(1))
  then have "(''create_entry'', baseUrl @ ''/entry/fn.create_entry.html'') \<in> set (spec_indexCandidates doc baseUrl)"
    unfolding spec_indexCandidates_def set_append by (rule UnI2)
  then show ?thesis by (rule rev_image_eqI) simp
qed

text \<open>
  C5. For every index page, \<open>parseHdkIndex\<close> succeeds with a list in which no name occurs
  twice; the list is the candidates (anchors of each selector strategy in turn, then the
  curated table) cut down to the first pair of each name, so a name's URL is that of its first
  candidate; and \<open>create_entry\<close>, which the curated table always offers, occurs exactly once.
\<close>

theorem parseHdkIndex_first_name_wins:
  "\<exists>fs. parseHdkIndex load html baseUrl = Inr fs
      \<and> distinct (map fn_name fs)
      \<and> map entryOf fs = spec_firstByName (spec_indexCandidates (load html) baseUrl)
      \<and> map_of (map entryOf fs) = map_of (spec_indexCandidates (load html) baseUrl)
      \<and> length (filter (\<lambda>f. fn_name f = ''create_entry'') fs) = 1"
proof -
  let ?cs = "spec_indexCandidates (load html) baseUrl"
  let ?fs = "map mkFunction (spec_firstByName ?cs)"
  have d: "distinct (map fn_name ?fs)"
    by (simp only: fn_name_mkFunction spec_firstByName_distinct)
  have "''create_entry'' \<in> fst ` set (spec_firstByName ?cs)"
    by (simp only: spec_firstByName_names create_entry_curated)
  then have "''create_entry'' \<in> set (map fn_name ?fs)"
    by (simp only: fn_name_mkFunction set_map)
  then have "''create_entry'' \<in> fn_name ` set ?fs"
    by (simp only: set_map)
  from count_one_name [OF d this]
  have one: "length (filter (\<lambda>f. fn_name f = ''create_entry'') ?fs) = 1" .
  show ?thesis
  proof (intro exI conjI)
    show "parseHdkIndex load html baseUrl = Inr ?fs" by (rule parseHdkIndex_spec)
    show "distinct (map fn_name ?fs)" by (rule d)
    show "map entryOf ?fs = spec_firstByName ?cs" by (rule entryOf_mkFunction)
    show "map_of (map entryOf ?fs) = map_of ?cs"
      by (simp only: entryOf_mkFunction spec_firstByName_map_of)
    show "length (filter (\<lambda>f. fn_name f = ''create_entry'') ?fs) = 1" by (rule one)
  qed
qed


text \<open>The index of the scenario page, computed.\<close>

lemma scenario_index:
  "parseHdkIndex (\<lambda>_. scenarioIndexPage) [] ''https://docs.rs/hdk/latest/hdk'' = Inr scenarioIndex"
  by code_simp

theorem parseHdkIndex_first_name_wins_witness:
  "parseHdkIndex (\<lambda>_. scenarioIndexPage) [] ''https://docs.rs/hdk/latest/hdk'' = Inr scenarioIndex
   \<and> distinct (map fn_name scenarioIndex)
   \<and> length (filter (\<lambda>f. fn_name f = ''create_entry'') scenarioIndex) = 1
   \<and> map_of (map entryOf scenarioIndex) ''create_entry''
       = Some ''https://docs.rs/hdk/latest/hdk/entry/fn.create_entry.html''"
proof -
  from parseHdkIndex_first_name_wins [of "\<lambda>_. scenarioIndexPage" "[]" "''https://docs.rs/hdk/latest/hdk''"]
  obtain fs where fs: "parseHdkIndex (\<lambda>_. scenarioIndexPage) [] ''https://docs.rs/hdk/latest/hdk'' = Inr fs"
    and d: "distinct (map fn_name fs)"
    and one: "length (filter (\<lambda>f. fn_name f = ''create_entry'') fs) = 1"
    by blast
  from fs have eq: "fs = scenarioIndex" by (simp add: scenario_index)
  have u: "map_of (map entryOf scenarioIndex) ''create_entry''
       = Some ''https://docs.rs/hdk/latest/hdk/entry/fn.create_entry.html''"
    by (simp add: scenarioIndex_def entryOf_def)
  from fs d one u show ?thesis unfolding eq by (intro conjI)
qed

section \<open>Properties of the function-index discovery\<close>

text \<open>
  C4. With every request failing and nothing cached, the index page cannot be fetched, the
  fallback crawl of the twelve module pages yields nothing, and the fallback has no curated
  table of its own: the discovery succeeds with the empty index and caches it, so that within
  the hour the empty index is served again whatever the network does.
\<close>

theorem discoverHDKFunctions_offline_empty:
  "discoverHDKFunctions load now (\<lambda>_. Fails ''getaddrinfo ENOTFOUND docs.rs'') initialState
     = (Inr [], \<lparr>pageCache = [], hdkFunctionCache = Some ([], now)\<rparr>)
   \<and> fst (discoverHDKFunctions load (now + 1) net
            \<lparr>pageCache = [], hdkFunctionCache = Some ([], now)\<rparr>) = Inr []"
  by (simp add: discoverHDKFunctions_def discoverHDKFunctionsFallback_def initialState_def
      effectCatchAll_def flatMap_def httpFetchPage_def fetchPage_def cacheRead_def fetchStatic_def
      timeout_def mapError_def baseUrl_hdk_def knownModules_def effectMap_def succeed_def
      uniqueByName_def fromExit_def FUNCTION_CACHE_TTL_def)

section \<open>Properties of the search\<close>

lemma effectCatchAll_succeed_total:
  "\<exists>rs st'. effectCatchAll (\<lambda>_. succeed []) m st = (Inr rs, st')"
proof (cases "m st")
  case (Pair r st')
  then show ?thesis by (cases r) (simp_all add: effectCatchAll_def succeed_def)
qed

lemma searchPage_total: "\<exists>rs st'. searchPage load rx now net query url st = (Inr rs, st')"
  unfolding searchPage_def by (rule effectCatchAll_succeed_total)

lemma effectAll_total:
  "(\<And>m st. m \<in> set ms \<Longrightarrow> \<exists>a st'. m st = (Inr a, st')) \<Longrightarrow> \<exists>as st'. effectAll ms st = (Inr as, st')"
proof (induction ms arbitrary: st)
  case Nil
  then show ?case by simp
next
  case (Cons m ms)
  from Cons.prems [of m st] obtain a st1 where a: "m st = (Inr a, st1)" by auto
  from Cons.IH [of st1] Cons.prems obtain as st2 where as: "effectAll ms st1 = (Inr as, st2)"
    by (metis list.set_intros(2))
  show ?case by (simp add: a as)
qed

lemma effectMap_total:
  "\<exists>a st'. m st = (Inr a, st') \<Longrightarrow> \<exists>b st'. effectMap f m st = (Inr b, st')"
  by (auto simp: effectMap_def)

lemma effectMap_Inr: "m st = (Inr a, st') \<Longrightarrow> effectMap f m st = (Inr (f a), st')"
  by (simp add: effectMap_def)

lemma searchPages_total:
  "\<exists>rss st'. effectAll (map (searchPage load rx now net query) urls) st = (Inr rss, st')"
proof (rule effectAll_total)
  fix m st
  assume "m \<in> set (map (searchPage load rx now net query) urls)"
  then obtain url where "m = searchPage load rx now net query url" by auto
  then show "\<exists>a st'. m st = (Inr a, st')" by (simp add: searchPage_total)
qed

lemma length_rankResults: "length (rankResults rs) \<le> 5"
  by (simp add: rankResults_def)

lemma sorted_neg_rev:
  "sorted (map (\<lambda>r. - int (f r)) xs) \<Longrightarrow> sorted (rev (map f xs))"
  by (induction xs) (auto simp: sorted_append)

lemma descending_rankResults: "descendingSnippets (rankResults rs)"
proof -
  have "sorted (map (\<lambda>r. - int (length (sr_snippet r))) (sort_key (\<lambda>r. - int (length (sr_snippet r))) rs))"
    by (rule sorted_sort_key)
  then have "sorted (map (\<lambda>r. - int (length (sr_snippet r)))
       (take 5 (sort_key (\<lambda>r. - int (length (sr_snippet r))) rs)))"
    unfolding take_map [symmetric] by (rule sorted_wrt_take)
  then show ?thesis
    unfolding descendingSnippets_def rankResults_def by (rule sorted_neg_rev)
qed

lemma searchDeveloperDocs_ranked:
  "\<exists>rss st'. searchDeveloperDocs load rx now net query st = (Inr (rankResults (concat rss)), st')"
proof -
  from searchPages_total obtain rss st'
    where "effectAll (map (searchPage load rx now net query)
              (map (\<lambda>page. baseUrl_developer @ page) commonDeveloperPages)) st = (Inr rss, st')"
    by blast
  then show ?thesis
    by (auto simp: searchDeveloperDocs_def effectMap_def)
qed

lemma searchRustDocs_ranked:
  "\<exists>rss st'. searchRustDocs load rx now net query docType st = (Inr (rankResults (concat rss)), st')"
proof -
  let ?urls = "map (\<lambda>path. (case docType of HDK \<Rightarrow> baseUrl_hdk | HDI \<Rightarrow> baseUrl_hdi) @ path)
                 (if docType = HDK then commonHDKPaths else commonHDIPaths)"
  from searchPages_total obtain rss st'
    where "effectAll (map (searchPage load rx now net query) ?urls) st = (Inr rss, st')"
    by blast
  then show ?thesis
    by (auto simp: searchRustDocs_def effectMap_def Let_def)
qed

lemma ranked_ok: "atMostFiveDescending (rankResults rs)"
  by (simp add: atMostFiveDescending_def length_rankResults descending_rankResults)

lemma searchDeveloperDocs_ok:
  "\<exists>rs st'. searchDeveloperDocs load rx now net query st = (Inr rs, st') \<and> atMostFiveDescending rs"
  using searchDeveloperDocs_ranked [of load rx now net query st] ranked_ok by metis

lemma searchRustDocs_ok:
  "\<exists>rs st'. searchRustDocs load rx now net query docType st = (Inr rs, st') \<and> atMostFiveDescending rs"
  using searchRustDocs_ranked [of load rx now net query docType st] ranked_ok by metis

lemma emptyOk: "atMostFiveDescending []"
  by (simp add: atMostFiveDescending_def descendingSnippets_def)

lemma searchProgram_parts:
  "\<exists>d h i st'. searchProgram load rx now net query source st = (Inr (d @ h @ i), st')
      \<and> atMostFiveDescending d \<and> atMostFiveDescending h \<and> atMostFiveDescending i
      \<and> (source \<noteq> SourceAll \<and> source \<noteq> SourceDeveloper \<longrightarrow> d = [])
      \<and> (source \<noteq> SourceAll \<and> source \<noteq> SourceHdk \<longrightarrow> h = [])
      \<and> (source \<noteq> SourceAll \<and> source \<noteq> SourceHdi \<longrightarrow> i = [])"
proof -
  obtain d st1 where d: "(if source = SourceAll \<or> source = SourceDeveloper
        then effectMap (\<lambda>devResults. [] @ devResults) (searchDeveloperDocs load rx now net query)
        else succeed []) st = (Inr d, st1)" "atMostFiveDescending d"
     "source \<noteq> SourceAll \<and> source \<noteq> SourceDeveloper \<longrightarrow> d = []"
    using searchDeveloperDocs_ok [of load rx now net query st] emptyOk
    by (cases "source = SourceAll \<or> source = SourceDeveloper")
       (auto simp: effectMap_def succeed_def)
  obtain h st2 where h: "(if source = SourceAll \<or> source = SourceHdk
          then effectMap (\<lambda>hdkResults. d @ hdkResults) (searchRustDocs load rx now net query HDK)
          else succeed d) st1 = (Inr (d @ h), st2)" "atMostFiveDescending h"
     "source \<noteq> SourceAll \<and> source \<noteq> SourceHdk \<longrightarrow> h = []"
    using searchRustDocs_ok [of load rx now net query HDK st1] emptyOk
    by (cases "source = SourceAll \<or> source = SourceHdk")
       (auto simp: effectMap_def succeed_def)
  obtain i st3 where i: "(if source = SourceAll \<or> source = SourceHdi
            then effectMap (\<lambda>hdiResults. (d @ h) @ hdiResults) (searchRustDocs load rx now net query HDI)
            else succeed (d @ h)) st2 = (Inr ((d @ h) @ i), st3)" "atMostFiveDescending i"
     "source \<noteq> SourceAll \<and> source \<noteq> SourceHdi \<longrightarrow> i = []"
    using searchRustDocs_ok [of load rx now net query HDI st2] emptyOk
    by (cases "source = SourceAll \<or> source = SourceHdi")
       (auto simp: effectMap_def succeed_def)
  have "searchProgram load rx now net query source st = (Inr (d @ h @ i), st3)"
    unfolding searchProgram_def flatMap_def using d(1) h(1) i(1)
    by (simp add: succeed_def)
  with d h i show ?thesis by blast
qed

lemma parse_dht:
  "parseSearchResults loadDhtPage literalRegExp html url [''dht''] = Inr (Some (dhtResult url))"
  by code_simp

lemma split_dht: "splitSpace (toLowerCase ''dht'') = [''dht'']"
  by code_simp

lemma dht_not_cached:
  "\<not> shouldCache ''<title>The DHT</title><p>The DHT is a distributed hash table.</p>''"
  by code_simp

lemma fetch_dht:
  "pageCache st = [] \<Longrightarrow>
   httpFetchPage now everyPageResponds url st
     = (Inr ''<title>The DHT</title><p>The DHT is a distributed hash table.</p>'', st)"
  by (cases st)
     (simp add: httpFetchPage_def fetchPage_def cacheRead_def fetchRendered_def fetchStatic_def
        fetchAndCache_def dht_not_cached everyPageResponds_def timeout_def mapError_def)

lemma searchPage_dht:
  "pageCache st = [] \<Longrightarrow>
   searchPage loadDhtPage literalRegExp now everyPageResponds ''dht'' url st
     = (Inr [dhtResult url], st)"
  by (simp add: searchPage_def effectCatchAll_def effectMap_def flatMap_def fetch_dht fromExit_def
      split_dht parse_dht toArray_def)

lemma effectAll_same_state:
  "(\<And>u. f u st = (Inr (g u), st)) \<Longrightarrow> effectAll (map f us) st = (Inr (map g us), st)"
  by (induction us) simp_all

lemma searchPages_dht:
  "pageCache st = [] \<Longrightarrow>
   effectAll (map (searchPage loadDhtPage literalRegExp now everyPageResponds ''dht'') urls) st
     = (Inr (map (\<lambda>url. [dhtResult url]) urls), st)"
  by (rule effectAll_same_state) (rule searchPage_dht)

lemma length_rankResults_eq: "length (rankResults rs) = min 5 (length rs)"
  by (simp add: rankResults_def min.commute)

lemma length_concat_singletons:
  "(\<And>u. length (f u) = 1) \<Longrightarrow> length (concat (map f us)) = length us"
  by (induction us) simp_all

lemma searchDeveloperDocs_dht:
  assumes "pageCache st = []"
  shows "\<exists>rs. searchDeveloperDocs loadDhtPage literalRegExp now everyPageResponds ''dht'' st
     = (Inr rs, st) \<and> length rs = 5"
proof -
  have n: "length commonDeveloperPages = 10" by (simp add: commonDeveloperPages_def)
  show ?thesis
    unfolding searchDeveloperDocs_def effectMap_def searchPages_dht [OF assms]
    by (simp add: length_rankResults_eq length_concat_singletons n)
qed

lemma searchRustDocs_dht:
  assumes "pageCache st = []"
  shows "\<exists>rs. searchRustDocs loadDhtPage literalRegExp now everyPageResponds ''dht'' docType st
     = (Inr rs, st) \<and> length rs = 5"
proof -
  have n: "length commonHDKPaths = 12" "length commonHDIPaths = 6"
    by (simp_all add: commonHDKPaths_def commonHDIPaths_def)
  show ?thesis
    unfolding searchRustDocs_def effectMap_def Let_def searchPages_dht [OF assms]
    by (simp add: length_rankResults_eq length_concat_singletons n)
qed

text \<open>
  C2, as stated, fails for the scope \<open>all\<close>: with every known page answering and containing
  the query term, the search returns fifteen results, five from each source.
\<close>

theorem search_all_returns_fifteen:
  "resultCount (fst (searchProgram loadDhtPage literalRegExp 0 everyPageResponds ''dht'' SourceAll
      initialState)) = 15"
proof -
  have c: "pageCache initialState = []" by (simp add: initialState_def)
  from searchDeveloperDocs_dht [OF c, of 0] obtain d
    where d: "searchDeveloperDocs loadDhtPage literalRegExp 0 everyPageResponds ''dht'' initialState
        = (Inr d, initialState)" "length d = 5" by blast
  from searchRustDocs_dht [OF c, of 0 HDK] obtain h
    where h: "searchRustDocs loadDhtPage literalRegExp 0 everyPageResponds ''dht'' HDK initialState
        = (Inr h, initialState)" "length h = 5" by blast
  from searchRustDocs_dht [OF c, of 0 HDI] obtain i
    where i: "searchRustDocs loadDhtPage literalRegExp 0 everyPageResponds ''dht'' HDI initialState
        = (Inr i, initialState)" "length i = 5" by blast
  have "searchProgram loadDhtPage literalRegExp 0 everyPageResponds ''dht'' SourceAll initialState
      = (Inr (d @ h @ i), initialState)"
    by (simp add: searchProgram_def flatMap_def effectMap_def succeed_def d(1) h(1) i(1))
  then show ?thesis by (simp add: resultCount_def d(2) h(2) i(2))
qed

lemma searchProgram_tied:
  "\<exists>d h i st1 st2 st3.
      (if source = SourceAll \<or> source = SourceDeveloper
       then searchDeveloperDocs load rx now net query st = (Inr d, st1)
       else d = [] \<and> st1 = st)
    \<and> (if source = SourceAll \<or> source = SourceHdk
       then searchRustDocs load rx now net query HDK st1 = (Inr h, st2)
       else h = [] \<and> st2 = st1)
    \<and> (if source = SourceAll \<or> source = SourceHdi
       then searchRustDocs load rx now net query HDI st2 = (Inr i, st3)
       else i = [] \<and> st3 = st2)
    \<and> searchProgram load rx now net query source st = (Inr (d @ h @ i), st3)
    \<and> atMostFiveDescending d \<and> atMostFiveDescending h \<and> atMostFiveDescending i"
proof -
  obtain d st1 where d: "if source = SourceAll \<or> source = SourceDeveloper
       then searchDeveloperDocs load rx now net query st = (Inr d, st1)
       else d = [] \<and> st1 = st" "atMostFiveDescending d"
    using searchDeveloperDocs_ok [of load rx now net query st] emptyOk
    by (cases "source = SourceAll \<or> source = SourceDeveloper") auto
  obtain h st2 where h: "if source = SourceAll \<or> source = SourceHdk
       then searchRustDocs load rx now net query HDK st1 = (Inr h, st2)
       else h = [] \<and> st2 = st1" "atMostFiveDescending h"
    using searchRustDocs_ok [of load rx now net query HDK st1] emptyOk
    by (cases "source = SourceAll \<or> source = SourceHdk") auto
  obtain i st3 where i: "if source = SourceAll \<or> source = SourceHdi
       then searchRustDocs load rx now net query HDI st2 = (Inr i, st3)
       else i = [] \<and> st3 = st2" "atMostFiveDescending i"
    using searchRustDocs_ok [of load rx now net query HDI st2] emptyOk
    by (cases "source = SourceAll \<or> source = SourceHdi") auto
  have p: "searchProgram load rx now net query source st = (Inr (d @ h @ i), st3)"
    using d(1) h(1) i(1)
    by (cases source) (simp_all add: searchProgram_def flatMap_def effectMap_def succeed_def)
  from d h i p show ?thesis by blast
qed

text \<open>
  C2, amended. For every query, scope, network and state the search succeeds, and its result
  is \<open>d @ h @ i\<close> where \<open>d\<close> is what \<open>searchDeveloperDocs\<close> returns, \<open>h\<close> what
  \<open>searchRustDocs\<close> returns for the HDK and \<open>i\<close> what it returns for the HDI, run in this
  order, each from the state the one before left; a source that the scope leaves out is not
  searched and contributes the empty list. Each of the three lists has at most five results in
  the order of descending snippet length. So a single-source scope returns at most five results
  in descending order, and the scope \<open>all\<close> at most fifteen, the three lists appended as they
  are.
\<close>

theorem search_top_five_per_source:
  "\<exists>d h i st1 st2 st3.
      (if source = SourceAll \<or> source = SourceDeveloper
       then searchDeveloperDocs load rx now net query st = (Inr d, st1)
       else d = [] \<and> st1 = st)
    \<and> (if source = SourceAll \<or> source = SourceHdk
       then searchRustDocs load rx now net query HDK st1 = (Inr h, st2)
       else h = [] \<and> st2 = st1)
    \<and> (if source = SourceAll \<or> source = SourceHdi
       then searchRustDocs load rx now net query HDI st2 = (Inr i, st3)
       else i = [] \<and> st3 = st2)
    \<and> searchProgram load rx now net query source st = (Inr (d @ h @ i), st3)
    \<and> atMostFiveDescending d \<and> atMostFiveDescending h \<and> atMostFiveDescending i
    \<and> length (d @ h @ i) \<le> 15
    \<and> (source \<noteq> SourceAll \<longrightarrow> atMostFiveDescending (d @ h @ i))"
proof -
  from searchProgram_tied [of source load rx now net query st] obtain d h i st1 st2 st3
    where t: "if source = SourceAll \<or> source = SourceDeveloper
         then searchDeveloperDocs load rx now net query st = (Inr d, st1)
         else d = [] \<and> st1 = st"
        "if source = SourceAll \<or> source = SourceHdk
         then searchRustDocs load rx now net query HDK st1 = (Inr h, st2)
         else h = [] \<and> st2 = st1"
        "if source = SourceAll \<or> source = SourceHdi
         then searchRustDocs load rx now net query HDI st2 = (Inr i, st3)
         else i = [] \<and> st3 = st2"
      and r: "searchProgram load rx now net query source st = (Inr (d @ h @ i), st3)"
      and ok: "atMostFiveDescending d" "atMostFiveDescending h" "atMostFiveDescending i"
    by blast
  from ok have len: "length (d @ h @ i) \<le> 15" by (simp add: atMostFiveDescending_def)
  have one: "source \<noteq> SourceAll \<longrightarrow> atMostFiveDescending (d @ h @ i)"
    using t ok by (cases source) auto
  from t r ok len one show ?thesis by blast
qed

theorem search_top_five_per_source_witness:
  "\<exists>rs. searchRustDocs loadDhtPage literalRegExp 0 everyPageResponds ''dht'' HDI initialState
       = (Inr rs, initialState)
     \<and> searchProgram loadDhtPage literalRegExp 0 everyPageResponds ''dht'' SourceHdi initialState
       = (Inr rs, initialState)
     \<and> length rs = 5 \<and> atMostFiveDescending rs"
proof -
  have c: "pageCache initialState = []" by (simp add: initialState_def)
  from searchRustDocs_dht [OF c, of 0 HDI] obtain rs
    where i: "searchRustDocs loadDhtPage literalRegExp 0 everyPageResponds ''dht'' HDI initialState
        = (Inr rs, initialState)" "length rs = 5" by blast
  from search_top_five_per_source [of SourceHdi loadDhtPage literalRegExp 0 everyPageResponds
      "''dht''" initialState] i(1)
  have "searchProgram loadDhtPage literalRegExp 0 everyPageResponds ''dht'' SourceHdi initialState
       = (Inr rs, initialState) \<and> atMostFiveDescending rs" by auto
  with i show ?thesis by blast
qed

lemma searchPage_fetch_failure:
  "fst (httpFetchPage now net url st) = Inl e \<Longrightarrow>
   fst (searchPage load rx now net query url st) = Inr []"
  by (cases "httpFetchPage now net url st")
     (simp add: searchPage_def effectCatchAll_def effectMap_def flatMap_def succeed_def)

lemma searchPage_parse_failure:
  "fst (httpFetchPage now net url st) = Inr html \<Longrightarrow>
   parseSearchResults load rx html url (splitSpace (toLowerCase query)) = Inl e \<Longrightarrow>
   fst (searchPage load rx now net query url st) = Inr []"
  by (cases "httpFetchPage now net url st")
     (simp add: searchPage_def effectCatchAll_def effectMap_def flatMap_def succeed_def fromExit_def)

text \<open>
  C9. The effect built for one candidate page never fails: a failed fetch (transport failure or
  timeout) and a failed parse both leave it succeeding with the empty list. Hence the searches
  over the developer pages and over the HDK or HDI pages, and the search of the tool for every
  scope, succeed whatever the network does.
\<close>

theorem search_swallows_page_failures:
  "(\<exists>rs st'. searchPage load rx now net query url st = (Inr rs, st'))
   \<and> (\<forall>e. fst (httpFetchPage now net url st) = Inl e \<longrightarrow>
          fst (searchPage load rx now net query url st) = Inr [])
   \<and> (\<forall>html e. fst (httpFetchPage now net url st) = Inr html
          \<and> parseSearchResults load rx html url (splitSpace (toLowerCase query)) = Inl e \<longrightarrow>
          fst (searchPage load rx now net query url st) = Inr [])
   \<and> (\<exists>rs st'. searchDeveloperDocs load rx now net query st = (Inr rs, st'))
   \<and> (\<exists>rs st'. searchRustDocs load rx now net query docType st = (Inr rs, st'))
   \<and> (\<exists>rs st'. searchProgram load rx now net query source st = (Inr rs, st'))"
proof (intro conjI allI impI)
  show "\<exists>rs st'. searchPage load rx now net query url st = (Inr rs, st')"
    by (rule searchPage_total)
  show "fst (searchPage load rx now net query url st) = Inr []"
    if "fst (httpFetchPage now net url st) = Inl e" for e
    using that by (rule searchPage_fetch_failure)
  show "fst (searchPage load rx now net query url st) = Inr []"
    if "fst (httpFetchPage now net url st) = Inr html
          \<and> parseSearchResults load rx html url (splitSpace (toLowerCase query)) = Inl e" for html e
    using that by (auto intro: searchPage_parse_failure)
  show "\<exists>rs st'. searchDeveloperDocs load rx now net query st = (Inr rs, st')"
    using searchDeveloperDocs_ranked [of load rx now net query st] by blast
  show "\<exists>rs st'. searchRustDocs load rx now net query docType st = (Inr rs, st')"
    using searchRustDocs_ranked [of load rx now net query docType st] by blast
  show "\<exists>rs st'. searchProgram load rx now net query source st = (Inr rs, st')"
    using searchProgram_parts [of load rx now net query source st] by blast
qed

lemma fetch_fails:
  "pageCache st = [] \<Longrightarrow>
   \<exists>msg. httpFetchPage now everyPageFails url st = (Inl (FetchError msg), st)"
  by (cases st)
     (simp add: httpFetchPage_def fetchPage_def cacheRead_def fetchRendered_def fetchStatic_def
        everyPageFails_def timeout_def mapError_def)

lemma parse_bad_pattern:
  "parseSearchResults loadDhtPage literalRegExp html url (splitSpace (toLowerCase ''(dht''))
     = Inl (ParseError ''Failed to parse search results: SyntaxError: Invalid regular expression'')"
  by code_simp

theorem search_swallows_page_failures_witness:
  "(\<exists>msg. fst (httpFetchPage 0 everyPageFails ''https://docs.rs/hdk/latest/hdk/entry/index.html''
       initialState) = Inl (FetchError msg))
   \<and> fst (searchPage loadDhtPage literalRegExp 0 everyPageFails ''dht''
        ''https://docs.rs/hdk/latest/hdk/entry/index.html'' initialState) = Inr []
   \<and> fst (httpFetchPage 0 everyPageResponds ''https://docs.rs/hdk/latest/hdk/entry/index.html''
        initialState) = Inr ''<title>The DHT</title><p>The DHT is a distributed hash table.</p>''
   \<and> parseSearchResults loadDhtPage literalRegExp
        ''<title>The DHT</title><p>The DHT is a distributed hash table.</p>''
        ''https://docs.rs/hdk/latest/hdk/entry/index.html'' (splitSpace (toLowerCase ''(dht''))
       = Inl (ParseError ''Failed to parse search results: SyntaxError: Invalid regular expression'')
   \<and> fst (searchPage loadDhtPage literalRegExp 0 everyPageResponds ''(dht''
        ''https://docs.rs/hdk/latest/hdk/entry/index.html'' initialState) = Inr []"
proof -
  let ?u = "''https://docs.rs/hdk/latest/hdk/entry/index.html''"
  have c: "pageCache initialState = []" by (simp add: initialState_def)
  from fetch_fails [OF c, of 0 ?u] obtain msg
    where f: "fst (httpFetchPage 0 everyPageFails ?u initialState) = Inl (FetchError msg)" by auto
  have g: "fst (httpFetchPage 0 everyPageResponds ?u initialState)
      = Inr ''<title>The DHT</title><p>The DHT is a distributed hash table.</p>''"
    by (simp add: fetch_dht [OF c])
  note p = parse_bad_pattern [of "''<title>The DHT</title><p>The DHT is a distributed hash table.</p>''" ?u]
  from search_swallows_page_failures [of loadDhtPage literalRegExp 0 everyPageFails "''dht''" ?u initialState]
    f have 1: "fst (searchPage loadDhtPage literalRegExp 0 everyPageFails ''dht'' ?u initialState) = Inr []"
    by blast
  from search_swallows_page_failures [of loadDhtPage literalRegExp 0 everyPageResponds "''(dht''" ?u initialState]
    g p have 2: "fst (searchPage loadDhtPage literalRegExp 0 everyPageResponds ''(dht'' ?u initialState) = Inr []"
    by blast
  from f g p 1 2 show ?thesis by blast
qed

section \<open>Properties of the concept resolver\<close>

lemma findFirst_none: "(\<forall>x \<in> set xs. \<not> p x) \<Longrightarrow> findFirst p xs = None"
  by (induction xs) simp_all

lemma findFirst_first:
  "(\<forall>x \<in> set pre. \<not> p x) \<Longrightarrow> p x \<Longrightarrow> findFirst p (pre @ x # post) = Some x"
  by (induction pre) simp_all

lemma conceptPredicate:
  "(\<lambda>(key, path). includesStr nc key \<or> includesStr key nc) = spec_conceptMatches nc"
  by (auto simp: spec_conceptMatches_def fun_eq_iff)

lemma fetchDocumentationPage_fetched:
  "httpFetchPage now net url st = (Inr html, st') \<Longrightarrow>
   fetchDocumentationPage load now net url st = (parseDocumentationPage load html url, st')"
  by (cases "parseDocumentationPage load html url")
     (simp_all add: fetchDocumentationPage_def effectMapError_def flatMap_def fromExit_def
        parseDocumentationPage_def Let_def split_beta)

lemma fetchDocumentationPage_failed:
  "httpFetchPage now net url st = (Inl (FetchError msg), st') \<Longrightarrow>
   fetchDocumentationPage load now net url st
     = (Inl (NotFoundError (''Documentation page not found: '' @ url)), st')"
  by (simp add: fetchDocumentationPage_def effectMapError_def flatMap_def)

text \<open>
  C8. The phrase is put in lower case and matched against the table in its order, by
  containment in either direction. When no entry matches, the resolver fails with
  \<open>NotFoundError\<close>. Otherwise the first matching entry decides: the resolver is the fetch and
  extraction of the developer page at the entry's path, that is, the extracted page when the
  fetch yields a text, and a \<open>NotFoundError\<close> when the fetch fails.
\<close>

theorem getConceptDocs_first_match:
  "((\<forall>entry \<in> set conceptMappings. \<not> spec_conceptMatches (toLowerCase concept) entry) \<longrightarrow>
      getConceptDocs load now net concept st
        = (Inl (NotFoundError (''Concept not found: '' @ concept)), st))
   \<and> (conceptMappings = pre @ (key, path) # post
        \<and> (\<forall>entry \<in> set pre. \<not> spec_conceptMatches (toLowerCase concept) entry)
        \<and> spec_conceptMatches (toLowerCase concept) (key, path) \<longrightarrow>
      getConceptDocs load now net concept st
        = fetchDocumentationPage load now net (baseUrl_developer @ path) st
      \<and> (\<forall>html st'. httpFetchPage now net (baseUrl_developer @ path) st = (Inr html, st') \<longrightarrow>
            getConceptDocs load now net concept st
              = (parseDocumentationPage load html (baseUrl_developer @ path), st'))
      \<and> (\<forall>msg st'. httpFetchPage now net (baseUrl_developer @ path) st = (Inl (FetchError msg), st') \<longrightarrow>
            getConceptDocs load now net concept st
              = (Inl (NotFoundError (''Documentation page not found: '' @ baseUrl_developer @ path)), st')))"
proof (intro conjI impI)
  assume "\<forall>entry \<in> set conceptMappings. \<not> spec_conceptMatches (toLowerCase concept) entry"
  then have "findFirst (spec_conceptMatches (toLowerCase concept)) conceptMappings = None"
    by (rule findFirst_none)
  then show "getConceptDocs load now net concept st
        = (Inl (NotFoundError (''Concept not found: '' @ concept)), st)"
    by (simp add: getConceptDocs_def Let_def conceptPredicate failWith_def)
next
  assume h: "conceptMappings = pre @ (key, path) # post
        \<and> (\<forall>entry \<in> set pre. \<not> spec_conceptMatches (toLowerCase concept) entry)
        \<and> spec_conceptMatches (toLowerCase concept) (key, path)"
  then have "findFirst (spec_conceptMatches (toLowerCase concept)) (pre @ (key, path) # post)
      = Some (key, path)"
    by (intro findFirst_first) simp_all
  with h have f: "findFirst (spec_conceptMatches (toLowerCase concept)) conceptMappings = Some (key, path)"
    by simp
  then show g: "getConceptDocs load now net concept st
        = fetchDocumentationPage load now net (baseUrl_developer @ path) st"
    by (simp add: getConceptDocs_def Let_def conceptPredicate)
  show "\<forall>html st'. httpFetchPage now net (baseUrl_developer @ path) st = (Inr html, st') \<longrightarrow>
            getConceptDocs load now net concept st
              = (parseDocumentationPage load html (baseUrl_developer @ path), st')"
    by (simp add: g fetchDocumentationPage_fetched)
  show "\<forall>msg st'. httpFetchPage now net (baseUrl_developer @ path) st = (Inl (FetchError msg), st') \<longrightarrow>
            getConceptDocs load now net concept st
              = (Inl (NotFoundError (''Documentation page not found: '' @ baseUrl_developer @ path)), st')"
    by (simp add: g fetchDocumentationPage_failed)
qed

lemma lower_links: "toLowerCase ''Links and Anchors'' = ''links and anchors''"
  by code_simp

lemma lower_counter: "toLowerCase ''Countersigning'' = ''countersigning''"
  by code_simp

theorem getConceptDocs_first_match_witness:
  "getConceptDocs loadDhtPage 0 everyPageFails ''Countersigning'' initialState
       = (Inl (NotFoundError ''Concept not found: Countersigning''), initialState)
   \<and> conceptMappings = take 2 conceptMappings @ (''links'', ''/concepts/5_links_anchors'') # drop 3 conceptMappings
   \<and> spec_conceptMatches (toLowerCase ''Links and Anchors'') (''links'', ''/concepts/5_links_anchors'')
   \<and> getConceptDocs loadDhtPage 0 everyPageFails ''Links and Anchors'' initialState
       = fetchDocumentationPage loadDhtPage 0 everyPageFails
           ''https://developer.holochain.org/concepts/5_links_anchors'' initialState"
proof -
  have a: "\<forall>entry \<in> set conceptMappings. \<not> spec_conceptMatches (toLowerCase ''Countersigning'') entry"
    by (simp add: lower_counter conceptMappings_def spec_conceptMatches_def)
  have b: "conceptMappings = take 2 conceptMappings @ (''links'', ''/concepts/5_links_anchors'') # drop 3 conceptMappings"
    by (simp add: conceptMappings_def)
  have c: "\<forall>entry \<in> set (take 2 conceptMappings). \<not> spec_conceptMatches (toLowerCase ''Links and Anchors'') entry"
    by (simp add: lower_links conceptMappings_def spec_conceptMatches_def)
  have d: "spec_conceptMatches (toLowerCase ''Links and Anchors'') (''links'', ''/concepts/5_links_anchors'')"
    by (simp add: lower_links spec_conceptMatches_def)
  from getConceptDocs_first_match [where concept = "''Countersigning''" and load = loadDhtPage
      and now = 0 and net = everyPageFails and st = initialState] a
  have 1: "getConceptDocs loadDhtPage 0 everyPageFails ''Countersigning'' initialState
       = (Inl (NotFoundError ''Concept not found: Countersigning''), initialState)"
    by simp
  from getConceptDocs_first_match [where concept = "''Links and Anchors''"
      and pre = "take 2 conceptMappings" and key = "''links''"
      and path = "''/concepts/5_links_anchors''" and post = "drop 3 conceptMappings"
      and load = loadDhtPage and now = 0 and net = everyPageFails and st = initialState]
    b c d
  have 2: "getConceptDocs loadDhtPage 0 everyPageFails ''Links and Anchors'' initialState
       = fetchDocumentationPage loadDhtPage 0 everyPageFails
           (baseUrl_developer @ ''/concepts/5_links_anchors'') initialState"
    by blast
  from b d 1 2 show ?thesis by (simp add: baseUrl_developer_def)
qed

section \<open>Properties of the content extractor\<close>

lemma collapse_nonws:
  "\<not> isWhiteSpace c \<Longrightarrow> collapseWhiteSpace (c # s) = c # collapseWhiteSpace s"
  by (cases s) simp_all

lemma collapse_space_nonws:
  "isWhiteSpace c \<Longrightarrow> \<not> isWhiteSpace d \<Longrightarrow>
   collapseWhiteSpace (c # d # s) = CHR '' '' # collapseWhiteSpace (d # s)"
  by simp

lemma startsWith_append: "startsWith (p @ z) p"
  by (induction p) simp_all

lemma startsWith_iff: "startsWith s p \<longleftrightarrow> (\<exists>z. s = p @ z)"
proof (induction s p rule: startsWith.induct)
  case (1 s)
  then show ?case by simp
next
  case (2 c t)
  then show ?case by simp
next
  case (3 d s c t)
  then show ?case by auto
qed

lemma trim_keeps_prefix:
  assumes "p \<noteq> []" "\<not> isWhiteSpace (hd p)" "\<not> isWhiteSpace (last p)"
  shows "\<exists>z'. trim (p @ z) = p @ z'"
proof -
  from assms(1,2) have d1: "dropWhile isWhiteSpace (p @ z) = p @ z"
    by (cases p) simp_all
  have lp: "last p \<in> set (rev p)" using assms(1) by simp
  have d2: "dropWhile isWhiteSpace (rev p) = rev p"
    using assms(1,3) by (cases "rev p") (simp_all add: hd_rev [symmetric])
  have "\<exists>y. dropWhile isWhiteSpace (rev z @ rev p) = y @ rev p"
  proof (cases "\<forall>x \<in> set (rev z). isWhiteSpace x")
    case True
    then have "dropWhile isWhiteSpace (rev z @ rev p) = dropWhile isWhiteSpace (rev p)"
      by (intro dropWhile_append2) auto
    with d2 show ?thesis by simp
  next
    case False
    then obtain x where "x \<in> set (rev z)" "\<not> isWhiteSpace x" by blast
    then have "dropWhile isWhiteSpace (rev z @ rev p) = dropWhile isWhiteSpace (rev z) @ rev p"
      by (rule dropWhile_append1)
    then show ?thesis by blast
  qed
  then obtain y where "dropWhile isWhiteSpace (rev z @ rev p) = y @ rev p" by blast
  then have "trim (p @ z) = p @ rev y"
    by (simp add: trim_def d1)
  then show ?thesis by blast
qed

lemma startsWith_trim:
  "p \<noteq> [] \<Longrightarrow> \<not> isWhiteSpace (hd p) \<Longrightarrow> \<not> isWhiteSpace (last p) \<Longrightarrow>
   startsWith s p \<Longrightarrow> startsWith (trim s) p"
  unfolding startsWith_iff using trim_keeps_prefix by blast

lemma collapse_signature:
  "collapseWhiteSpace (''Function signature: pub fn create_entry(...)'' @ z)
     = ''Function signature: pub fn create_entry(...)'' @ collapseWhiteSpace z"
  by (simp del: collapseWhiteSpace.simps add: collapse_nonws collapse_space_nonws isWhiteSpace_def)

lemma startsWith_nonempty: "startsWith s p \<Longrightarrow> p \<noteq> [] \<Longrightarrow> s \<noteq> []"
  by (cases p) auto

lemma signature_survives_trim:
  "startsWith (trim (collapseWhiteSpace (''Function signature: pub fn create_entry(...)'' @ z)))
     ''Function signature: pub fn create_entry(...)''"
proof -
  have e: "''Function signature: pub fn create_entry(...)'' \<noteq> []"
    "\<not> isWhiteSpace (hd ''Function signature: pub fn create_entry(...)'')"
    "\<not> isWhiteSpace (last ''Function signature: pub fn create_entry(...)'')"
    by (simp_all add: isWhiteSpace_def)
  have "startsWith (collapseWhiteSpace (''Function signature: pub fn create_entry(...)'' @ z))
     ''Function signature: pub fn create_entry(...)''"
    unfolding collapse_signature by (rule startsWith_append)
  then show ?thesis
    by (intro startsWith_trim e)
qed

lemma signature_survives:
  "startsWith (trim (trim (collapseWhiteSpace (''Function signature: pub fn create_entry(...)'' @ z))))
     ''Function signature: pub fn create_entry(...)''"
proof -
  have e: "''Function signature: pub fn create_entry(...)'' \<noteq> []"
    "\<not> isWhiteSpace (hd ''Function signature: pub fn create_entry(...)'')"
    "\<not> isWhiteSpace (last ''Function signature: pub fn create_entry(...)'')"
    by (simp_all add: isWhiteSpace_def)
  show ?thesis
    by (intro startsWith_trim e signature_survives_trim)
qed

lemma signature_nonempty:
  "trim (collapseWhiteSpace (''Function signature: pub fn create_entry(...)'' @ z)) \<noteq> []"
  using signature_survives_trim [of z] by (rule startsWith_nonempty) simp

lemma title_stripped:
  "trim (trim (stripKeyword ''fn'' (stripKeyword ''pub'' ''pub fn create_entry(...)''))) = ''create_entry(...)''"
  by code_simp

lemma fqn_trimmed: "trim ''pub fn create_entry(...)'' = ''pub fn create_entry(...)''"
  by code_simp

lemma no_documentation:
  "trim (trim (collapseWhiteSpace (''Function signature: pub fn create_entry(...)'' @ [CHR 0x0A, CHR 0x0A]
       @ ''No additional documentation available.'')))
     = ''Function signature: pub fn create_entry(...) No additional documentation available.''"
  by code_simp

lemma withSignature_create_entry:
  assumes "c0 = [] \<or> (4 \<le> length c0 \<and> length c0 < 50)
        \<or> (50 \<le> length c0 \<and> \<not> includesStr (toLowerCase c0) ''externresult''
            \<and> \<not> includesStr c0 ''pub fn create_entry(...)'')"
  shows "withSignature ''pub fn create_entry(...)'' c0
     = ''Function signature: pub fn create_entry(...)''
         @ ([CHR 0x0A, CHR 0x0A] @ (if c0 = [] then ''No additional documentation available.'' else c0))"
  using assms by (auto simp: withSignature_def)

lemma bodyFallback_long: "50 \<le> length s \<Longrightarrow> bodyFallback doc s = s"
  by (auto simp: bodyFallback_def)

lemma parseRustPage_signature:
  assumes nodoc: "selectIn [Compound [Class ''docblock'']] [] doc = []"
    and gathered: "gatherContent doc rustContentSelectors [] = (c0, doc1)"
    and fqn1: "selectText doc1 [Compound [Class ''fqn'']] = ''pub fn create_entry(...)''"
    and c0: "c0 = [] \<or> (4 \<le> length c0 \<and> length c0 < 50)
        \<or> (50 \<le> length c0 \<and> \<not> includesStr (toLowerCase c0) ''externresult''
            \<and> \<not> includesStr c0 ''pub fn create_entry(...)'')"
  shows "fst (snd (parseRustPage doc url))
      = trim (collapseWhiteSpace (''Function signature: pub fn create_entry(...)''
          @ ([CHR 0x0A, CHR 0x0A] @ (if c0 = [] then ''No additional documentation available.'' else c0))))"
proof -
  let ?p2 = "''Function signature: pub fn create_entry(...)''
         @ ([CHR 0x0A, CHR 0x0A] @ (if c0 = [] then ''No additional documentation available.'' else c0))"
  have d: "docblockContent doc = []" by (simp add: docblockContent_def nodoc)
  have w: "withSignature (trim (selectText doc1 [Compound [Class ''fqn'']])) c0 = ?p2"
    unfolding fqn1 fqn_trimmed by (rule withSignature_create_entry [OF c0])
  have l: "50 \<le> length ?p2" using c0 by auto
  have b: "bodyFallback doc1 ?p2 = ?p2" using l by (rule bodyFallback_long)
  have ne: "0 < length (trim (collapseWhiteSpace ?p2))"
    using signature_nonempty [of "[CHR 0x0A, CHR 0x0A] @ (if c0 = [] then ''No additional documentation available.'' else c0)"]
    by simp
  show ?thesis
    unfolding parseRustPage_def d
    by (simp only: Let_def if_True refl gathered split_conv w b ne fst_conv snd_conv)
qed

lemma parseRustPage_title:
  assumes "selectText doc [Compound [Class ''fqn'']] = ''pub fn create_entry(...)''"
  shows "trim (fst (parseRustPage doc url)) = ''create_entry(...)''"
proof -
  have r: "rustTitle doc = ''pub fn create_entry(...)''"
    by (simp add: rustTitle_def assms)
  have t: "trim (stripKeyword ''fn'' (stripKeyword ''pub'' ''pub fn create_entry(...)'')) = ''create_entry(...)''"
    by code_simp
  have t2: "trim ''create_entry(...)'' = ''create_entry(...)''" by code_simp
  show ?thesis
    unfolding parseRustPage_def r
    by (simp add: Let_def split_beta t t2)
qed

text \<open>
  C7, as stated, fails on the page that has only the \<open>.fqn\<close> element: the title is stripped of
  \<open>pub fn\<close>, the signature line in the content is not.
\<close>

theorem signature_line_keeps_keywords:
  "selectText (loadFqnPage []) [Compound [Class ''fqn'']] = ''pub fn create_entry(...)''
   \<and> selectIn [Compound [Class ''docblock'']] [] (loadFqnPage []) = []
   \<and> titleOf (parseDocumentationPage loadFqnPage []
         ''https://docs.rs/hdk/latest/hdk/entry/fn.create_entry.html'') = ''create_entry(...)''
   \<and> contentOf (parseDocumentationPage loadFqnPage []
         ''https://docs.rs/hdk/latest/hdk/entry/fn.create_entry.html'')
       = ''Function signature: pub fn create_entry(...) No additional documentation available.''
   \<and> \<not> startsWith (contentOf (parseDocumentationPage loadFqnPage []
         ''https://docs.rs/hdk/latest/hdk/entry/fn.create_entry.html''))
       ''Function signature: create_entry(...)''"
  by code_simp

text \<open>
  C7, amended. For a \<open>docs.rs\<close> page whose \<open>.fqn\<close> text is \<open>pub fn create_entry(...)\<close> and
  which has no doc block, the title is \<open>create_entry(...)\<close>. The content begins with
  \<open>Function signature: pub fn create_entry(...)\<close>, the keywords kept, when the \<open>.fqn\<close> text is
  still that after the content regions have been searched and the text gathered from them is
  empty, or has 4 to 49 characters, or has 50 or more and holds neither \<open>externresult\<close> (in any
  case) nor the signature; with nothing gathered, the content is the signature line followed by
  \<open>No additional documentation available.\<close>
\<close>

theorem signature_line_for_create_entry:
  "\<not> includesStr url ''developer.holochain.org'' \<and> includesStr url ''docs.rs''
   \<and> selectText (load html) [Compound [Class ''fqn'']] = ''pub fn create_entry(...)''
   \<and> selectIn [Compound [Class ''docblock'']] [] (load html) = [] \<longrightarrow>
     titleOf (parseDocumentationPage load html url) = ''create_entry(...)''
     \<and> (gatherContent (load html) rustContentSelectors [] = (c0, doc1)
          \<and> selectText doc1 [Compound [Class ''fqn'']] = ''pub fn create_entry(...)''
          \<and> (c0 = [] \<or> (4 \<le> length c0 \<and> length c0 < 50)
              \<or> (50 \<le> length c0 \<and> \<not> includesStr (toLowerCase c0) ''externresult''
                  \<and> \<not> includesStr c0 ''pub fn create_entry(...)'')) \<longrightarrow>
         startsWith (contentOf (parseDocumentationPage load html url))
           ''Function signature: pub fn create_entry(...)''
         \<and> (c0 = [] \<longrightarrow> contentOf (parseDocumentationPage load html url)
               = ''Function signature: pub fn create_entry(...) No additional documentation available.''))"
proof (intro impI conjI)
  assume h: "\<not> includesStr url ''developer.holochain.org'' \<and> includesStr url ''docs.rs''
   \<and> selectText (load html) [Compound [Class ''fqn'']] = ''pub fn create_entry(...)''
   \<and> selectIn [Compound [Class ''docblock'']] [] (load html) = []"
  then have p: "parseDocumentationPage load html url
      = Inr \<lparr>doc_title = trim (fst (parseRustPage (load html) url)),
             doc_content = trim (fst (snd (parseRustPage (load html) url))),
             doc_url = url, doc_source = snd (snd (parseRustPage (load html) url))\<rparr>"
    by (simp add: parseDocumentationPage_def Let_def split_beta)
  from h show "titleOf (parseDocumentationPage load html url) = ''create_entry(...)''"
    by (simp add: p titleOf_def parseRustPage_title)
  assume g: "gatherContent (load html) rustContentSelectors [] = (c0, doc1)
          \<and> selectText doc1 [Compound [Class ''fqn'']] = ''pub fn create_entry(...)''
          \<and> (c0 = [] \<or> (4 \<le> length c0 \<and> length c0 < 50)
              \<or> (50 \<le> length c0 \<and> \<not> includesStr (toLowerCase c0) ''externresult''
                  \<and> \<not> includesStr c0 ''pub fn create_entry(...)''))"
  from h g have c: "contentOf (parseDocumentationPage load html url)
      = trim (trim (collapseWhiteSpace (''Function signature: pub fn create_entry(...)''
          @ ([CHR 0x0A, CHR 0x0A] @ (if c0 = [] then ''No additional documentation available.'' else c0)))))"
    by (simp only: p contentOf_def sum.case documentation_result.simps
        parseRustPage_signature [of "load html" c0 doc1 url])
  show "startsWith (contentOf (parseDocumentationPage load html url))
           ''Function signature: pub fn create_entry(...)''"
    unfolding c by (rule signature_survives)
  show "contentOf (parseDocumentationPage load html url)
               = ''Function signature: pub fn create_entry(...) No additional documentation available.''"
    if "c0 = []"
    unfolding c using that no_documentation by simp
qed

theorem signature_line_for_create_entry_witness:
  "contentOf (parseDocumentationPage loadFqnPage []
         ''https://docs.rs/hdk/latest/hdk/entry/fn.create_entry.html'')
       = ''Function signature: pub fn create_entry(...) No additional documentation available.''
   \<and> titleOf (parseDocumentationPage loadFqnPage []
         ''https://docs.rs/hdk/latest/hdk/entry/fn.create_entry.html'') = ''create_entry(...)''
   \<and> gatherContent (loadFqnPage []) rustContentSelectors [] = ([], fqnPage)"
proof -
  have u: "\<not> includesStr ''https://docs.rs/hdk/latest/hdk/entry/fn.create_entry.html'' ''developer.holochain.org''
      \<and> includesStr ''https://docs.rs/hdk/latest/hdk/entry/fn.create_entry.html'' ''docs.rs''"
    by code_simp
  have f: "selectText (loadFqnPage []) [Compound [Class ''fqn'']] = ''pub fn create_entry(...)''
      \<and> selectIn [Compound [Class ''docblock'']] [] (loadFqnPage []) = []"
    by code_simp
  have g: "gatherContent (loadFqnPage []) rustContentSelectors [] = ([], fqnPage)"
    by code_simp
  have f1: "selectText fqnPage [Compound [Class ''fqn'']] = ''pub fn create_entry(...)''"
    by code_simp
  from signature_line_for_create_entry [where url = "''https://docs.rs/hdk/latest/hdk/entry/fn.create_entry.html''"
      and load = loadFqnPage and html = "[]" and ?c0.0 = "[]" and ?doc1.0 = fqnPage] u f g f1
  show ?thesis by simp
qed

section \<open>Properties of the relevance scorer\<close>


















































end
